theory Spec2Isabelle
  imports Complex_Main
begin

text \<open>
  A shallow embedding of the two cooperating subsystems of bw-writer: the
  generation-invocation core \<open>callLLM\<close> with its provider handlers and \<open>extractJson\<close>
  (\<open>src/framework/llm-utils.js\<close>), and the protocol dispatch engine, the class
  \<open>McpServer\<close>. Asynchronous functions are modelled by the value their promise settles
  to, exceptions by the left summand of a sum type, the clock and the environment by
  arguments, mutable tables by state that is passed on.
\<close>

section \<open>JavaScript values\<close>

text \<open>
  The values that cross the interfaces of the two subsystems are JSON values, extended with
  \<open>undefined\<close> (what a missing property reads as). Numbers are rationals: every JSON number
  literal denotes one, and none of the code modelled here does arithmetic on them.
  Objects are association lists in insertion order with distinct keys.
\<close>

datatype json =
    JUndefined
  | JNull
  | JBool bool
  | JNum rat
  | JStr string
  | JArr "json list"
  | JObj "(string \<times> json) list"

text \<open>A thrown \<open>Error\<close> object: its \<open>name\<close> and its \<open>message\<close>.\<close>

record js_error =
  err_name :: string
  err_message :: string

definition Error :: "string \<Rightarrow> js_error" where
  "Error msg = \<lparr>err_name = ''Error'', err_message = msg\<rparr>"

text \<open>Truthiness (\<open>!!v\<close>).\<close>

fun truthy :: "json \<Rightarrow> bool" where
  "truthy JUndefined = False"
| "truthy JNull = False"
| "truthy (JBool b) = b"
| "truthy (JNum n) = (n \<noteq> 0)"
| "truthy (JStr s) = (s \<noteq> [])"
| "truthy (JArr xs) = True"
| "truthy (JObj kvs) = True"

text \<open>
  Property read \<open>v.k\<close> for the keys used in the code (none of them is a property of strings,
  arrays or numbers): the own property of an object, \<open>undefined\<close> otherwise. Reading a
  property of \<open>null\<close> or \<open>undefined\<close> throws in JavaScript; every read modelled with
  \<open>get\<close> is guarded against that in the source.
\<close>

fun get :: "json \<Rightarrow> string \<Rightarrow> json" where
  "get (JObj kvs) k = (case map_of kvs k of Some v \<Rightarrow> v | None \<Rightarrow> JUndefined)"
| "get v k = JUndefined"

text \<open>\<open>Object.keys(v).length\<close>: own enumerable keys (the indices, for strings and arrays).\<close>

fun keys_length :: "json \<Rightarrow> nat" where
  "keys_length (JObj kvs) = length kvs"
| "keys_length (JArr xs) = length xs"
| "keys_length (JStr s) = length s"
| "keys_length v = 0"

text \<open>Assignment \<open>o[k] = v\<close> on an object: replaces in place, or appends a new key.\<close>

fun obj_set :: "(string \<times> json) list \<Rightarrow> string \<Rightarrow> json \<Rightarrow> (string \<times> json) list" where
  "obj_set [] k v = [(k, v)]"
| "obj_set (p # ps) k v = (if fst p = k then (k, v) # ps else p # obj_set ps k v)"

text \<open>Decimal rendering of an integer, as a template literal prints it.\<close>

fun show_nat :: "nat \<Rightarrow> string" where
  "show_nat n = (if n < 10 then [char_of (48 + n)] else show_nat (n div 10) @ [char_of (48 + n mod 10)])"

definition show_int :: "int \<Rightarrow> string" where
  "show_int i = (if i < 0 then CHR ''-'' # show_nat (nat (- i)) else show_nat (nat i))"

section \<open>JSON.parse\<close>

text \<open>
  A recursive-descent reader for the JSON grammar (ECMA-404), standing for the built-in
  \<open>JSON.parse\<close>: \<open>None\<close> is the \<open>SyntaxError\<close>. The recursion is on a fuel argument that
  \<open>JSON_parse\<close> sets to the length of the text plus one; every nested call follows at least
  one consumed character, so the fuel never runs out before the text does. A repeated key
  keeps its first position and its last value. Characters are 8-bit, so a \<open>\u\<close> escape
  denotes the character of its code modulo 256.
\<close>

definition is_ws :: "char \<Rightarrow> bool" where
  "is_ws c = (c = CHR '' '' \<or> c = CHR 0x09 \<or> c = CHR 0x0A \<or> c = CHR 0x0D)"

definition skip_ws :: "string \<Rightarrow> string" where
  "skip_ws cs = dropWhile is_ws cs"

definition is_digit :: "char \<Rightarrow> bool" where
  "is_digit c = (48 \<le> (of_char c :: nat) \<and> (of_char c :: nat) \<le> 57)"

definition digit_val :: "char \<Rightarrow> nat" where
  "digit_val c = of_char c - 48"

definition digits_val :: "string \<Rightarrow> nat" where
  "digits_val ds = foldl (\<lambda>acc d. 10 * acc + digit_val d) 0 ds"

definition hex_val :: "char \<Rightarrow> nat option" where
  "hex_val c =
     (if is_digit c then Some (of_char c - 48)
      else if 97 \<le> (of_char c :: nat) \<and> (of_char c :: nat) \<le> 102 then Some (of_char c - 87)
      else if 65 \<le> (of_char c :: nat) \<and> (of_char c :: nat) \<le> 70 then Some (of_char c - 55)
      else None)"

definition unescape :: "char \<Rightarrow> char option" where
  "unescape e =
     (if e = CHR 0x22 then Some (CHR 0x22)
      else if e = CHR 0x5C then Some (CHR 0x5C)
      else if e = CHR ''/'' then Some (CHR ''/'')
      else if e = CHR ''b'' then Some (CHR 0x08)
      else if e = CHR ''f'' then Some (CHR 0x0C)
      else if e = CHR ''n'' then Some (CHR 0x0A)
      else if e = CHR ''r'' then Some (CHR 0x0D)
      else if e = CHR ''t'' then Some (CHR 0x09)
      else None)"

text \<open>The rest of a string literal, after its opening quote.\<close>

fun parse_string_body :: "string \<Rightarrow> (string \<times> string) option" where
  "parse_string_body [] = None"
| "parse_string_body (c # cs) =
     (if c = CHR 0x22 then Some ([], cs)
      else if c = CHR 0x5C then
        (case cs of
           [] \<Rightarrow> None
         | e # r \<Rightarrow>
             if e = CHR ''u'' then
               (case r of
                  h1 # h2 # h3 # h4 # r' \<Rightarrow>
                    (case (hex_val h1, hex_val h2, hex_val h3, hex_val h4) of
                       (Some a, Some b, Some c', Some d) \<Rightarrow>
                         (case parse_string_body r' of
                            None \<Rightarrow> None
                          | Some (s, rest) \<Rightarrow>
                              Some (char_of (((a * 16 + b) * 16 + c') * 16 + d) # s, rest))
                     | _ \<Rightarrow> None)
                | _ \<Rightarrow> None)
             else
               (case unescape e of
                  None \<Rightarrow> None
                | Some ch \<Rightarrow>
                    (case parse_string_body r of
                       None \<Rightarrow> None
                     | Some (s, rest) \<Rightarrow> Some (ch # s, rest))))
      else if (of_char c :: nat) < 32 then None
      else
        (case parse_string_body cs of
           None \<Rightarrow> None
         | Some (s, rest) \<Rightarrow> Some (c # s, rest)))"

text \<open>A number literal: \<open>-? (0 | [1-9][0-9]*) (. [0-9]+)? ([eE] [+-]? [0-9]+)?\<close>.\<close>

definition parse_exponent :: "string \<Rightarrow> (int \<times> string) option" where
  "parse_exponent cs =
     (case cs of
        [] \<Rightarrow> Some (0, cs)
      | e # r \<Rightarrow>
          if e = CHR ''e'' \<or> e = CHR ''E'' then
            (let neg = (case r of [] \<Rightarrow> False | s # _ \<Rightarrow> s = CHR ''-'');
                 r1 = (case r of [] \<Rightarrow> r | s # r' \<Rightarrow> if s = CHR ''-'' \<or> s = CHR ''+'' then r' else r);
                 ds = takeWhile is_digit r1
             in if ds = [] then None
                else Some ((if neg then - int (digits_val ds) else int (digits_val ds)),
                           dropWhile is_digit r1))
          else Some (0, cs))"

definition parse_fraction :: "string \<Rightarrow> (string \<times> string) option" where
  "parse_fraction cs =
     (case cs of
        [] \<Rightarrow> Some ([], cs)
      | d # r \<Rightarrow>
          if d = CHR ''.'' then
            (let fs = takeWhile is_digit r
             in if fs = [] then None else Some (fs, dropWhile is_digit r))
          else Some ([], cs))"

definition pow10 :: "int \<Rightarrow> rat" where
  "pow10 e = (if e < 0 then 1 / (10 ^ nat (- e)) else 10 ^ nat e)"

definition parse_number :: "string \<Rightarrow> (rat \<times> string) option" where
  "parse_number cs =
     (let neg = (case cs of [] \<Rightarrow> False | s # _ \<Rightarrow> s = CHR ''-'');
          cs1 = (if neg then tl cs else cs);
          ds = takeWhile is_digit cs1
      in if ds = [] \<or> (1 < length ds \<and> hd ds = CHR ''0'') then None
         else
           (case parse_fraction (dropWhile is_digit cs1) of
              None \<Rightarrow> None
            | Some (fs, cs2) \<Rightarrow>
                (case parse_exponent cs2 of
                   None \<Rightarrow> None
                 | Some (e, cs3) \<Rightarrow>
                     Some ((if neg then - 1 else 1) * of_nat (digits_val (ds @ fs))
                             * pow10 (e - int (length fs)), cs3))))"

fun parse_value :: "nat \<Rightarrow> string \<Rightarrow> (json \<times> string) option"
  and parse_elements :: "nat \<Rightarrow> string \<Rightarrow> (json list \<times> string) option"
  and parse_members :: "nat \<Rightarrow> string \<Rightarrow> ((string \<times> json) list \<times> string) option"
where
  "parse_value 0 cs = None"
| "parse_value (Suc n) cs =
     (case skip_ws cs of
        [] \<Rightarrow> None
      | c # r \<Rightarrow>
          if c = CHR ''{'' then
            (case skip_ws r of
               [] \<Rightarrow> None
             | c' # r' \<Rightarrow>
                 if c' = CHR ''}'' then Some (JObj [], r')
                 else (case parse_members n r of
                         None \<Rightarrow> None
                       | Some (kvs, rest) \<Rightarrow>
                           Some (JObj (foldl (\<lambda>acc (k, v). obj_set acc k v) [] kvs), rest)))
          else if c = CHR ''['' then
            (case skip_ws r of
               [] \<Rightarrow> None
             | c' # r' \<Rightarrow>
                 if c' = CHR '']'' then Some (JArr [], r')
                 else (case parse_elements n r of
                         None \<Rightarrow> None
                       | Some (vs, rest) \<Rightarrow> Some (JArr vs, rest)))
          else if c = CHR 0x22 then
            (case parse_string_body r of
               None \<Rightarrow> None
             | Some (s, rest) \<Rightarrow> Some (JStr s, rest))
          else if take 4 (c # r) = ''true'' then Some (JBool True, drop 4 (c # r))
          else if take 5 (c # r) = ''false'' then Some (JBool False, drop 5 (c # r))
          else if take 4 (c # r) = ''null'' then Some (JNull, drop 4 (c # r))
          else (case parse_number (c # r) of
                  None \<Rightarrow> None
                | Some (x, rest) \<Rightarrow> Some (JNum x, rest)))"
| "parse_elements 0 cs = None"
| "parse_elements (Suc n) cs =
     (case parse_value n cs of
        None \<Rightarrow> None
      | Some (v, r) \<Rightarrow>
          (case skip_ws r of
             [] \<Rightarrow> None
           | c # r' \<Rightarrow>
               if c = CHR '','' then
                 (case parse_elements n r' of
                    None \<Rightarrow> None
                  | Some (vs, rest) \<Rightarrow> Some (v # vs, rest))
               else if c = CHR '']'' then Some ([v], r')
               else None))"
| "parse_members 0 cs = None"
| "parse_members (Suc n) cs =
     (case skip_ws cs of
        [] \<Rightarrow> None
      | q # r \<Rightarrow>
          if q = CHR 0x22 then
            (case parse_string_body r of
               None \<Rightarrow> None
             | Some (k, r1) \<Rightarrow>
                 (case skip_ws r1 of
                    [] \<Rightarrow> None
                  | c # r2 \<Rightarrow>
                      if c = CHR '':'' then
                        (case parse_value n r2 of
                           None \<Rightarrow> None
                         | Some (v, r3) \<Rightarrow>
                             (case skip_ws r3 of
                                [] \<Rightarrow> None
                              | d # r4 \<Rightarrow>
                                  if d = CHR '','' then
                                    (case parse_members n r4 of
                                       None \<Rightarrow> None
                                     | Some (kvs, rest) \<Rightarrow> Some ((k, v) # kvs, rest))
                                  else if d = CHR ''}'' then Some ([(k, v)], r4)
                                  else None))
                      else None))
          else None)"

definition JSON_parse :: "string \<Rightarrow> json option" where
  "JSON_parse text =
     (case parse_value (Suc (length text)) text of
        None \<Rightarrow> None
      | Some (v, rest) \<Rightarrow> if skip_ws rest = [] then Some v else None)"

section \<open>Structured-payload extraction (\<open>src/framework/llm-utils.js\<close>)\<close>

text \<open>
  The ASCII characters that the regular-expression class \<open>\s\<close> and
  \<open>String.prototype.trim\<close> treat as white space (a text is a list of 8-bit characters; the
  white space beyond ASCII is left out).
\<close>

definition is_space :: "char \<Rightarrow> bool" where
  "is_space c =
     (c = CHR '' '' \<or> c = CHR 0x09 \<or> c = CHR 0x0A \<or> c = CHR 0x0B \<or> c = CHR 0x0C \<or> c = CHR 0x0D)"

text \<open>
  \<open>tryParse\<close>: the parsed value if it is an object or an array, \<open>null\<close> for any other
  value and for a \<open>SyntaxError\<close>.
\<close>

definition tryParse :: "string \<Rightarrow> json option" where
  "tryParse str =
     (case JSON_parse str of
        Some (JObj kvs) \<Rightarrow> Some (JObj kvs)
      | Some (JArr xs) \<Rightarrow> Some (JArr xs)
      | _ \<Rightarrow> None)"

text \<open>
  The pattern \<open>/```(?:json)?\s*([\s\S]*?)\s*```/\<close>. \<open>closes_fence\<close> is \<open>\s*```\<close> at
  the head of the text; \<open>lazy_capture\<close> is the lazy group followed by the closing fence and
  returns the group; \<open>fence_at\<close> is the whole pattern anchored at the head (the optional
  \<open>json\<close> is tried first, then skipped); \<open>fence_match\<close> takes the leftmost position
  where the pattern matches, as \<open>String.prototype.match\<close> does, and returns group 1.
  The greedy \<open>\s*\<close> before the group never needs to give characters back: the
  positions the lazy group would then scan include the ones it scans anyway.
\<close>

definition closes_fence :: "string \<Rightarrow> bool" where
  "closes_fence cs = (take 3 (dropWhile is_space cs) = [CHR 0x60, CHR 0x60, CHR 0x60])"

fun lazy_capture :: "string \<Rightarrow> string option" where
  "lazy_capture [] = None"
| "lazy_capture (c # cs) =
     (if closes_fence (c # cs) then Some []
      else (case lazy_capture cs of None \<Rightarrow> None | Some g \<Rightarrow> Some (c # g)))"

definition fence_at :: "string \<Rightarrow> string option" where
  "fence_at cs =
     (if take 3 cs = [CHR 0x60, CHR 0x60, CHR 0x60] then
        (let r = drop 3 cs;
             with_json = (if take 4 r = ''json''
                          then lazy_capture (dropWhile is_space (drop 4 r)) else None)
         in case with_json of
              Some g \<Rightarrow> Some g
            | None \<Rightarrow> lazy_capture (dropWhile is_space r))
      else None)"

fun fence_match :: "string \<Rightarrow> string option" where
  "fence_match [] = None"
| "fence_match (c # cs) =
     (case fence_at (c # cs) of Some g \<Rightarrow> Some g | None \<Rightarrow> fence_match cs)"

text \<open>
  The pattern \<open>/\{[\s\S]*?\}/\<close>: an opening brace, then lazily any characters up to the
  first closing brace. \<open>brace_match\<close> returns the matched text (group 0) at the leftmost
  position where the pattern matches.
\<close>

fun lazy_to_close :: "string \<Rightarrow> string option" where
  "lazy_to_close [] = None"
| "lazy_to_close (c # cs) =
     (if c = CHR ''}'' then Some [c]
      else (case lazy_to_close cs of None \<Rightarrow> None | Some m \<Rightarrow> Some (c # m)))"

fun brace_match :: "string \<Rightarrow> string option" where
  "brace_match [] = None"
| "brace_match (c # cs) =
     (case (if c = CHR ''{'' then lazy_to_close cs else None) of
        Some m \<Rightarrow> Some (c # m)
      | None \<Rightarrow> brace_match cs)"

text \<open>
  \<open>extractJson(text)\<close>; the argument is \<open>None\<close> for \<open>undefined\<close> or \<open>null\<close>, the
  result \<open>JNull\<close> for \<open>null\<close>. \<open>from_code_block\<close> is the second step (the first fenced
  block, if its content parses), \<open>from_braces\<close> the third (the brace match, if it parses).
\<close>

definition from_code_block :: "string \<Rightarrow> json option" where
  "from_code_block t = (case fence_match t of None \<Rightarrow> None | Some g \<Rightarrow> tryParse g)"

definition from_braces :: "string \<Rightarrow> json option" where
  "from_braces t = (case brace_match t of None \<Rightarrow> None | Some m \<Rightarrow> tryParse m)"

definition extractJson :: "string option \<Rightarrow> json" where
  "extractJson text =
     (case text of
        None \<Rightarrow> JNull
      | Some t \<Rightarrow>
          if t = [] then JNull
          else
            (case tryParse t of
               Some direct \<Rightarrow> direct
             | None \<Rightarrow>
                 (case from_code_block t of
                    Some parsed \<Rightarrow> parsed
                  | None \<Rightarrow> (case from_braces t of Some v \<Rightarrow> v | None \<Rightarrow> JNull))))"

section \<open>The generation-invocation core (\<open>src/framework/llm-utils.js\<close>)\<close>

text \<open>
  A provider configuration: the fields \<open>callLLM\<close> reads. \<open>json_schema\<close> is
  \<open>config.schema\<close>, the JSON text of the converted schema. The sampling and pricing fields
  are only handed on to the provider and are left out. \<open>maxRetries\<close> is a property that
  neither \<open>callLLM\<close> nor a handler reads: a caller who passes it in the third argument
  adds it to the remaining properties, which are spread over the configuration.
\<close>

record llm_config =
  provider :: "string option"
  model :: "string option"
  key :: "string option"
  apiKey :: "string option"
  json_schema :: "string option"
  maxRetries :: "int option"

definition preset :: "string \<Rightarrow> string \<Rightarrow> string \<Rightarrow> llm_config" where
  "preset p m k =
     \<lparr>provider = Some p, model = Some m, key = Some k, apiKey = None, json_schema = None,
      maxRetries = None\<rparr>"

definition LLM_CONFIGS :: "(string \<times> llm_config) list" where
  "LLM_CONFIGS =
    [(''gpt4o'', preset ''openai'' ''gpt-4o'' ''OPENAI_API_KEY''),
     (''gpt4turbo'', preset ''openai'' ''gpt-4-turbo'' ''OPENAI_API_KEY''),
     (''gpt4oMini'', preset ''openai'' ''gpt-4o-mini'' ''OPENAI_API_KEY''),
     (''gpt35turbo'', preset ''openai'' ''gpt-3.5-turbo-0125'' ''OPENAI_API_KEY''),
     (''claude3opus'', preset ''anthropic'' ''claude-3-opus-20240229'' ''ANTHROPIC_API_KEY''),
     (''claude3sonnet'', preset ''anthropic'' ''claude-3-5-sonnet-20240620'' ''ANTHROPIC_API_KEY''),
     (''claude3haiku'', preset ''anthropic'' ''claude-3-haiku-20240307'' ''ANTHROPIC_API_KEY''),
     (''claude2'', preset ''anthropic'' ''claude-2.1'' ''ANTHROPIC_API_KEY''),
     (''gemini15pro'', preset ''google'' ''gemini-1.5-pro-latest'' ''GOOGLE_API_KEY''),
     (''gemini15flash'', preset ''google'' ''gemini-1.5-flash-latest'' ''GOOGLE_API_KEY''),
     (''gemini10pro'', preset ''google'' ''gemini-1.0-pro'' ''GOOGLE_API_KEY''),
     (''ppxsonarlarge'', preset ''perplexity'' ''llama-3.1-sonar-large-128k-online'' ''PERPLEXITY_API_KEY''),
     (''ppxsonarsmall'', preset ''perplexity'' ''llama-3.1-sonar-small-128k-online'' ''PERPLEXITY_API_KEY''),
     (''ppxsonarlargechat'', preset ''perplexity'' ''llama-3.1-sonar-large-128k-chat'' ''PERPLEXITY_API_KEY''),
     (''ppxsonarsmallchat'', preset ''perplexity'' ''llama-3.1-sonar-small-128k-chat'' ''PERPLEXITY_API_KEY''),
     (''mistrallarge'', preset ''mistral'' ''mistral-large-latest'' ''MISTRAL_API_KEY''),
     (''mistralmedium'', preset ''mistral'' ''mistral-medium-latest'' ''MISTRAL_API_KEY''),
     (''mistralsmall'', preset ''mistral'' ''mistral-small-latest'' ''MISTRAL_API_KEY''),
     (''llama3'', preset ''groq'' ''llama3-70b-8192'' ''GROQ_API_KEY''),
     (''llama3_8b'', preset ''groq'' ''llama3-8b-8192'' ''GROQ_API_KEY''),
     (''commandrplus'', preset ''cohere'' ''command-r-plus'' ''COHERE_API_KEY''),
     (''commandr'', preset ''cohere'' ''command-r'' ''COHERE_API_KEY''),
     (''openroutergpt4o'', preset ''openrouter'' ''openai/gpt-4o'' ''OPENROUTER_API_KEY''),
     (''openroutergpt35'', preset ''openrouter'' ''openai/gpt-3.5-turbo'' ''OPENROUTER_API_KEY'')]"

definition DEFAULT_LLM_CONFIG :: string where
  "DEFAULT_LLM_CONFIG = ''gpt4oMini''"

text \<open>
  How a property that may be \<open>undefined\<close> is turned into a string, in a template literal
  and as a property key.
\<close>

definition show_opt :: "string option \<Rightarrow> string" where
  "show_opt v = (case v of None \<Rightarrow> ''undefined'' | Some s \<Rightarrow> s)"

text \<open>The process environment, and \<open>readKey\<close>: the variable's value, the empty string if unset.\<close>

type_synonym env = "string \<rightharpoonup> string"

definition readKey :: "env \<Rightarrow> string option \<Rightarrow> string" where
  "readKey env keyName = (case env (show_opt keyName) of None \<Rightarrow> [] | Some v \<Rightarrow> v)"

text \<open>
  A Zod schema, as far as the code uses one: whether \<open>safeParse\<close> accepts a value, and the
  text \<open>JSON.stringify(zodToJsonSchema(schema))\<close>.
\<close>

record zod_schema =
  safeParse_success :: "json \<Rightarrow> bool"
  zodToJsonSchema :: string

text \<open>
  The third argument of \<open>callLLM\<close>: \<open>systemMessage\<close>, \<open>schema\<close> and \<open>maxTries\<close>
  (\<open>None\<close> where the caller leaves the property out), and \<open>rest\<close>, the remaining
  properties, which are spread over the configuration.
\<close>

record llm_options =
  systemMessage :: "string option"
  schema :: "zod_schema option"
  maxTries :: "int option"
  rest :: llm_config

text \<open>The second argument: the name of a preset, or a configuration object.\<close>

datatype llm_arg = Name string | Config llm_config

text \<open>Object spread \<open>{...base, ...over}\<close>: a property of \<open>over\<close> wins.\<close>

definition spread :: "llm_config \<Rightarrow> llm_config \<Rightarrow> llm_config" where
  "spread base over =
     \<lparr>provider = (case provider over of Some v \<Rightarrow> Some v | None \<Rightarrow> provider base),
      model = (case model over of Some v \<Rightarrow> Some v | None \<Rightarrow> model base),
      key = (case key over of Some v \<Rightarrow> Some v | None \<Rightarrow> key base),
      apiKey = (case apiKey over of Some v \<Rightarrow> Some v | None \<Rightarrow> apiKey base),
      json_schema = (case json_schema over of Some v \<Rightarrow> Some v | None \<Rightarrow> json_schema base),
      maxRetries = (case maxRetries over of Some v \<Rightarrow> Some v | None \<Rightarrow> maxRetries base)\<rparr>"

definition empty_config :: llm_config where
  "empty_config =
     \<lparr>provider = None, model = None, key = None, apiKey = None, json_schema = None,
      maxRetries = None\<rparr>"

record message =
  role :: string
  content :: string

text \<open>
  What the providers answer is outside the program: \<open>network\<close> gives, for the number of
  the attempt, the messages and the configuration, the reply of each provider's API.
  \<^item> OpenAI: the call throws, or returns a completion, of which the handler reads the
    arguments of the first tool call and the content of the first choice;
  \<^item> Anthropic: \<open>None\<close> when the call is rejected (the handler turns that into \<open>null\<close>),
    else the text of the first content block and the legacy \<open>completion\<close>;
  \<^item> Perplexity: \<open>None\<close> when the request fails, the status is not ok, the body is not
    JSON or there is no first choice, else that choice's message content and text.
\<close>

record openai_response =
  tool_arguments :: "string option"
  message_content :: "string option"

record anthropic_response =
  content_text :: "string option"
  completion :: "string option"

record perplexity_choice =
  choice_content :: "string option"
  choice_text :: "string option"

record network =
  openai_create :: "nat \<Rightarrow> message list \<Rightarrow> llm_config \<Rightarrow> js_error + openai_response"
  anthropic_create :: "nat \<Rightarrow> message list \<Rightarrow> llm_config \<Rightarrow> anthropic_response option"
  perplexity_post :: "nat \<Rightarrow> message list \<Rightarrow> llm_config \<Rightarrow> perplexity_choice option"

definition SyntaxError :: js_error where
  "SyntaxError = \<lparr>err_name = ''SyntaxError'', err_message = ''Unexpected token in JSON''\<rparr>"

text \<open>\<open>a || b\<close> on strings that may be missing.\<close>

definition or_else :: "string option \<Rightarrow> string option \<Rightarrow> string option" where
  "or_else a b = (case a of Some s \<Rightarrow> if s \<noteq> [] then Some s else b | None \<Rightarrow> b)"

type_synonym handler = "nat \<Rightarrow> message list \<Rightarrow> llm_config \<Rightarrow> js_error + json"

definition openai_handler :: "network \<Rightarrow> handler" where
  "openai_handler net i messages config =
     (case openai_create net i messages config of
        Inl e \<Rightarrow> Inl e
      | Inr response \<Rightarrow>
          (case or_else (tool_arguments response) None of
             Some args \<Rightarrow>
               (case JSON_parse args of Some v \<Rightarrow> Inr v | None \<Rightarrow> Inl SyntaxError)
           | None \<Rightarrow> Inr (extractJson (message_content response))))"

definition perplexity_handler :: "network \<Rightarrow> env \<Rightarrow> handler" where
  "perplexity_handler net env i messages config =
     (if or_else (env ''PERPLEXITY_API_KEY'') None = None
      then Inl (Error ''PERPLEXITY_API_KEY environment variable not set'')
      else
        (case perplexity_post net i messages config of
           None \<Rightarrow> Inr (JObj [])
         | Some choice \<Rightarrow>
             Inr (extractJson
                    (or_else (choice_content choice) (or_else (choice_text choice) (Some []))))))"

definition anthropic_handler :: "network \<Rightarrow> env \<Rightarrow> handler" where
  "anthropic_handler net env i messages config =
     (if or_else (apiKey config) (Some (readKey env (key config))) = Some []
      then Inl (Error ''No API key'')
      else
        (case anthropic_create net i messages config of
           None \<Rightarrow> Inr (JObj [])
         | Some r \<Rightarrow>
             Inr (extractJson
                    (or_else (content_text r) (or_else (completion r) (Some []))))))"

text \<open>
  The retry loop \<open>for (let i = 0; i < maxTries; i++)\<close>. The state is the counter, the
  last error caught, and (for the statements about attempts) the list of the message lists
  handed to the handler so far. The loop ends with the result it returns, or with the last
  error when the attempts are used up.
\<close>

function attempts ::
  "handler \<Rightarrow> message list \<Rightarrow> llm_config \<Rightarrow> int \<Rightarrow> int \<Rightarrow> js_error option \<Rightarrow> message list list
     \<Rightarrow> (js_error option + json) \<times> message list list" where
  "attempts h messages config tries i lastErr sent =
     (if i < tries then
        (case h (nat i) messages config of
           Inr result \<Rightarrow>
             if truthy result \<and> 0 < keys_length result
             then (Inr result, sent @ [messages])
             else attempts h messages config tries (i + 1) lastErr (sent @ [messages])
         | Inl e \<Rightarrow> attempts h messages config tries (i + 1) (Some e) (sent @ [messages]))
      else (Inl lastErr, sent))"
  by pat_completeness auto
termination
  by (relation "measure (\<lambda>(h, messages, config, tries, i, lastErr, sent). nat (tries - i))") auto

text \<open>
  \<open>callLLM(prompt, llm, cfg)\<close>, in the order of the source.

  \<open>merged_config\<close> is the preset (or the object given) with \<open>rest\<close> spread over it;
  \<open>resolve_config\<close> sets its \<open>apiKey\<close> to the key given or else to
  \<open>readKey(config.key)\<close>.
\<close>

definition merged_config :: "llm_arg \<Rightarrow> llm_options \<Rightarrow> llm_config" where
  "merged_config llm cfg =
     spread (case llm of
               Name n \<Rightarrow>
                 (case map_of LLM_CONFIGS (if n = [] then DEFAULT_LLM_CONFIG else n) of
                    None \<Rightarrow> empty_config
                  | Some c \<Rightarrow> c)
             | Config c \<Rightarrow> c)
            (rest cfg)"

definition resolve_config :: "env \<Rightarrow> llm_arg \<Rightarrow> llm_options \<Rightarrow> llm_config" where
  "resolve_config env llm cfg =
     (let config = merged_config llm cfg
      in config\<lparr>apiKey := Some (case or_else (apiKey config) None of
                                   Some k \<Rightarrow> k
                                 | None \<Rightarrow> readKey env (key config))\<rparr>)"

text \<open>
  The message list: the system message unless it is blank, then the prompt with the schema
  directive appended. \<open>dflt\<close> stands for the schema \<open>z.object({ result: z.string() })\<close>
  used when the caller gives none.
\<close>

definition schema_directive :: "string \<Rightarrow> string" where
  "schema_directive js =
     [CHR 0x0A, CHR 0x0A] @ '' Return only a valid JSON object (no extra text) matching this schema: ''
       @ [CHR 0x0A, CHR 0x0A] @ ''======'' @ [CHR 0x0A, CHR 0x0A] @ js @ '' ''
       @ [CHR 0x0A, CHR 0x0A] @ ''======='' @ [CHR 0x0A, CHR 0x0A]"

definition the_schema :: "zod_schema \<Rightarrow> llm_options \<Rightarrow> zod_schema" where
  "the_schema dflt cfg = (case schema cfg of None \<Rightarrow> dflt | Some s \<Rightarrow> s)"

definition compose_messages :: "zod_schema \<Rightarrow> string \<Rightarrow> llm_options \<Rightarrow> message list" where
  "compose_messages dflt prompt cfg =
     (let system = (case systemMessage cfg of None \<Rightarrow> [] | Some s \<Rightarrow> s);
          prompt' = prompt @ schema_directive (zodToJsonSchema (the_schema dflt cfg));
          systemMessages =
            (if dropWhile is_space system \<noteq> []
             then [\<lparr>role = ''system'', content = system\<rparr>] else [])
      in systemMessages @ [\<lparr>role = ''user'', content = prompt'\<rparr>])"

text \<open>The handler for the provider; \<open>None\<close> when the provider is not supported.\<close>

definition select_handler :: "network \<Rightarrow> env \<Rightarrow> string option \<Rightarrow> handler option" where
  "select_handler net env p =
     (if p = Some ''openai'' then Some (openai_handler net)
      else if p = Some ''anthropic'' then Some (anthropic_handler net env)
      else if p = Some ''perplexity'' then Some (perplexity_handler net env)
      else None)"

text \<open>
  The result of \<open>callLLM\<close> is what its promise settles to (\<open>Inl\<close> the error thrown),
  together with the message lists handed to the provider handler, one per attempt.
\<close>

definition callLLM ::
  "network \<Rightarrow> env \<Rightarrow> zod_schema \<Rightarrow> string \<Rightarrow> llm_arg \<Rightarrow> llm_options
     \<Rightarrow> (js_error + json) \<times> message list list" where
  "callLLM net env dflt prompt llm cfg =
     (let tries = (case maxTries cfg of None \<Rightarrow> 3 | Some n \<Rightarrow> n);
          config1 = resolve_config env llm cfg
      in if apiKey config1 = Some [] then
           (Inl (Error (''No API key found for '' @ show_opt (model config1))), [])
         else
           (let config = config1\<lparr>json_schema := Some (zodToJsonSchema (the_schema dflt cfg))\<rparr>;
                messages = compose_messages dflt prompt cfg
            in case select_handler net env (provider config) of
                 None \<Rightarrow>
                   (Inl (Error (''Unsupported provider: '' @ show_opt (provider config))), [])
               | Some handler \<Rightarrow>
                   (case attempts handler messages config tries 0 None [] of
                      (Inr result, sent) \<Rightarrow> (Inr result, sent)
                    | (Inl lastErr, sent) \<Rightarrow>
                        (Inl (Error
                           ((case lastErr of
                               Some e \<Rightarrow>
                                 ''Failed after '' @ show_int tries @ '' attempts. Last error: ''
                                   @ err_message e
                             | None \<Rightarrow>
                                 ''Failed after '' @ show_int tries
                                   @ '' attempts. No valid response received.'')
                            @ '' Last response: undefined'')), sent))))"

section \<open>The protocol dispatch engine (class \<open>McpServer\<close>)\<close>

text \<open>
  A tool descriptor. The handler is an asynchronous function of the parameters: it resolves
  to a value (\<open>JUndefined\<close> when it returns nothing) or throws an \<open>Error\<close>.
\<close>

record tool =
  tool_name :: string
  tool_description :: string
  tool_parameters :: json
  tool_handler :: "json \<Rightarrow> js_error + json"

text \<open>\<open>this.options\<close>; \<open>getMockData\<close> is \<open>None\<close> when the option is not given.\<close>

record options =
  serverName :: string
  version :: string
  vendor :: string
  protocolVersion :: string
  mockMode :: bool
  getMockData :: "(string \<Rightarrow> json \<Rightarrow> js_error + json) option"

text \<open>
  A rate limiter: the two constants and the two tables that the closures made by
  \<open>addRateLimiter\<close> share. Times are milliseconds, as \<open>Date.now()\<close> gives them.
\<close>

record limiter =
  toolName :: string
  windowMs :: int
  maxRequests :: int
  requestCounts :: "string \<rightharpoonup> int list"
  errors :: "string \<rightharpoonup> string \<times> string"


text \<open>
  The server. \<open>apiKeySchemas\<close> holds, for each validation schema, what \<open>schema.parse\<close>
  does on the environment: \<open>None\<close> when it passes, else the message of the first issue.
  \<open>handleReadResource\<close> is a method of the class whose body is missing from the
  repository's sources; it is a parameter here.
\<close>

record server =
  options :: options
  tools :: "tool list"
  apiKeySchemas :: "(env \<Rightarrow> string option) list"
  rateLimiters :: "string \<rightharpoonup> limiter"
  handleReadResource :: "json \<Rightarrow> bool \<Rightarrow> json \<Rightarrow> json"

definition registerTool :: "server \<Rightarrow> tool \<Rightarrow> js_error + server" where
  "registerTool srv t =
     (if tool_name t = [] \<or> tool_description t = [] \<or> \<not> truthy (tool_parameters t)
      then Inl (Error ''Invalid tool definition'')
      else Inr (srv\<lparr>tools := tools srv @ [t]\<rparr>))"




text \<open>\<open>Math.ceil(w / 1000)\<close> on an integer, and \<open>Math.min(...ts)\<close> printed.\<close>

definition ceil_seconds :: "int \<Rightarrow> int" where
  "ceil_seconds w = - ((- w) div 1000)"

definition wait_text :: "int list \<Rightarrow> int \<Rightarrow> int \<Rightarrow> string" where
  "wait_text ts window now =
     (case ts of
        [] \<Rightarrow> ''Infinity''
      | t # ts' \<Rightarrow> show_int (ceil_seconds (fold min ts' t + window - now)))"

text \<open>The message of a rejection, from the times still in the window.\<close>

definition rate_limit_message :: "int list \<Rightarrow> int \<Rightarrow> int \<Rightarrow> string" where
  "rate_limit_message recent window now =
     ''Rate limit exceeded. Try again in '' @ wait_text recent window now @ '' seconds.''"

text \<open>\<open>check(clientId)\<close> at time \<open>now\<close>: whether the limit is exceeded, and the new tables.\<close>

definition check :: "limiter \<Rightarrow> string \<Rightarrow> int \<Rightarrow> bool \<times> limiter" where
  "check l clientId now =
     (let k = toolName l @ '':'' @ clientId;
          recent = filter (\<lambda>time. now - time < windowMs l)
                     (case requestCounts l k of None \<Rightarrow> [] | Some ts \<Rightarrow> ts)
      in if maxRequests l \<le> int (length recent) then
           (True, l\<lparr>requestCounts := (requestCounts l)(k \<mapsto> recent),
                    errors := (errors l)(k \<mapsto>
                      (''RateLimitExceeded'', rate_limit_message recent (windowMs l) now))\<rparr>)
         else (False, l\<lparr>requestCounts := (requestCounts l)(k \<mapsto> recent @ [now])\<rparr>))"

definition getError :: "limiter \<Rightarrow> string \<Rightarrow> string \<times> string" where
  "getError l clientId =
     (case errors l (toolName l @ '':'' @ clientId) of
        Some e \<Rightarrow> e
      | None \<Rightarrow> (''RateLimitExceeded'', ''Rate limit exceeded''))"

text \<open>\<open>validateApiKeys()\<close>: \<open>None\<close> for \<open>true\<close>, else the \<open>error\<close> of the object returned.\<close>

definition validateApiKeys :: "server \<Rightarrow> env \<Rightarrow> string option" where
  "validateApiKeys srv env =
     (if mockMode (options srv) then None
      else (case List.map_filter (\<lambda>schema. schema env) (apiKeySchemas srv) of
              [] \<Rightarrow> None
            | msg # _ \<Rightarrow> Some msg))"

definition formatMcpError :: "server \<Rightarrow> json \<Rightarrow> json \<Rightarrow> json" where
  "formatMcpError srv type msg =
     JObj [(''protocolVersion'', JStr (protocolVersion (options srv))),
           (''error'', JObj [(''type'', type), (''message'', msg)])]"

definition formatMcpResponse :: "server \<Rightarrow> json \<Rightarrow> json" where
  "formatMcpResponse srv result =
     JObj [(''protocolVersion'', JStr (protocolVersion (options srv))), (''result'', result)]"

definition formatJsonRpcError :: "json \<Rightarrow> int \<Rightarrow> json \<Rightarrow> json" where
  "formatJsonRpcError rid code msg =
     JObj [(''jsonrpc'', JStr ''2.0''), (''id'', rid),
           (''error'', JObj [(''code'', JNum (of_int code)), (''message'', msg)])]"

definition formatJsonRpcResponse :: "json \<Rightarrow> json \<Rightarrow> json" where
  "formatJsonRpcResponse rid result =
     JObj [(''jsonrpc'', JStr ''2.0''), (''id'', rid), (''result'', result)]"

definition getToolDefinitions :: "server \<Rightarrow> json list" where
  "getToolDefinitions srv =
     map (\<lambda>t. JObj [(''name'', JStr (tool_name t)),
                     (''description'', JStr (tool_description t)),
                     (''parameters'', tool_parameters t)]) (tools srv)"

definition findTool :: "server \<Rightarrow> string \<Rightarrow> tool option" where
  "findTool srv name = find (\<lambda>t. tool_name t = name) (tools srv)"

text \<open>
  \<open>parseMcpRequest(line)\<close>. The fields of the result are the values read from the parsed
  line, \<open>JUndefined\<close> where the line has none. \<open>JSON.parse\<close> throws on a malformed line, and
  reading \<open>data.jsonrpc\<close> throws when the line is the literal \<open>null\<close>.
\<close>

record request =
  isJsonRpc :: bool
  req_id :: json
  req_method :: json
  req_name :: json
  req_parameters :: json

definition TypeError :: "string \<Rightarrow> js_error" where
  "TypeError msg = \<lparr>err_name = ''TypeError'', err_message = msg\<rparr>"

definition parseMcpRequest :: "string \<Rightarrow> js_error + request" where
  "parseMcpRequest line =
     (case JSON_parse line of
        None \<Rightarrow> Inl SyntaxError
      | Some JNull \<Rightarrow> Inl (TypeError ''Cannot read properties of null (reading 'jsonrpc')'')
      | Some data \<Rightarrow>
          if get data ''jsonrpc'' = JStr ''2.0'' then
            Inr \<lparr>isJsonRpc = True,
                 req_id = get data ''id'',
                 req_method = get data ''method'',
                 req_name = get (get data ''params'') ''name'',
                 req_parameters = get (get data ''params'') ''parameters''\<rparr>
          else
            Inr \<lparr>isJsonRpc = False,
                 req_id = JUndefined,
                 req_method = JUndefined,
                 req_name = get data ''name'',
                 req_parameters = get data ''parameters''\<rparr>)"

text \<open>
  \<open>handleListResources\<close>: the fixed catalogue; it reads the server name from its
  parameters and does not use it.
\<close>

definition handleListResources :: "server \<Rightarrow> json \<Rightarrow> bool \<Rightarrow> json \<Rightarrow> json" where
  "handleListResources srv params isRpc requestId =
     (let resources =
            [JObj [(''uri'', JStr ''server-info''), (''name'', JStr ''Server Information''),
                   (''description'', JStr ''Basic information about the MCP server''),
                   (''parameters'', JObj [])],
             JObj [(''uri'', JStr ''tool-list''), (''name'', JStr ''Available Tools''),
                   (''description'', JStr ''List of available tools on this server''),
                   (''parameters'', JObj [])]];
          result = JObj [(''resources'', JArr resources), (''cursor'', JNull)]
      in if isRpc then formatJsonRpcResponse requestId result else formatMcpResponse srv result)"

text \<open>
  \<open>const params = { ...parameters }\<close>, then the server name filled in when the caller
  gave none. Parameters are an object, or missing.
\<close>

definition with_serverName :: "server \<Rightarrow> json \<Rightarrow> json" where
  "with_serverName srv parameters =
     (let params = (case parameters of JObj kvs \<Rightarrow> kvs | _ \<Rightarrow> [])
      in if \<not> truthy (get (JObj params) ''serverName'') \<and> \<not> truthy (get (JObj params) ''ServerName'')
         then JObj (obj_set params ''serverName'' (JStr (serverName (options srv))))
         else JObj params)"

text \<open>
  \<open>this.rateLimiters\<close> is a plain object, so reading it at a name that \<open>Object.prototype\<close>
  defines finds the inherited member when no limiter was added under that name; calling
  \<open>check\<close> on that member throws a \<open>TypeError\<close>, outside the \<open>try\<close> block.
\<close>

definition Object_prototype_keys :: "string list" where
  "Object_prototype_keys =
     [''constructor'', ''__defineGetter__'', ''__defineSetter__'', ''hasOwnProperty'',
      ''__lookupGetter__'', ''__lookupSetter__'', ''isPrototypeOf'', ''propertyIsEnumerable'',
      ''toString'', ''valueOf'', ''__proto__'', ''toLocaleString'']"

text \<open>
  The part of \<open>executeToolCall\<close> inside \<open>try\<close>. \<open>handler_outcome\<close> is what the handler,
  or the mock-data provider in mock mode, comes back with; \<open>is_preformatted\<close> and
  \<open>is_raw_error\<close> are the two tests made on a result; \<open>run_handler\<close> formats the outcome.
\<close>

definition handler_outcome :: "server \<Rightarrow> tool \<Rightarrow> string \<Rightarrow> json \<Rightarrow> js_error + json" where
  "handler_outcome srv t name parameters =
     (case (if mockMode (options srv) then getMockData (options srv) else None) of
        Some mock \<Rightarrow> mock name parameters
      | None \<Rightarrow> tool_handler t parameters)"

definition is_preformatted :: "json \<Rightarrow> bool" where
  "is_preformatted result =
     (truthy result \<and> truthy (get result ''protocolVersion'') \<and> truthy (get result ''error''))"

definition is_raw_error :: "json \<Rightarrow> bool" where
  "is_raw_error result =
     (truthy result \<and> truthy (get result ''type'') \<and> truthy (get result ''message''))"

definition run_handler :: "server \<Rightarrow> tool \<Rightarrow> string \<Rightarrow> json \<Rightarrow> bool \<Rightarrow> json \<Rightarrow> json" where
  "run_handler srv t name parameters isRpc requestId =
     (case handler_outcome srv t name parameters of
        Inr result \<Rightarrow>
          if result = JUndefined \<or> result = JNull then
            (if isRpc
             then formatJsonRpcError requestId (- 32000) (JStr ''Internal error: No response from handler'')
             else formatMcpError srv (JStr ''InternalError'') (JStr ''No response from handler''))
          else if is_preformatted result then result
          else if is_raw_error result then
            (if isRpc
             then formatJsonRpcError requestId (- 32000) (get result ''message'')
             else formatMcpError srv (get result ''type'') (get result ''message''))
          else
            (if isRpc then formatJsonRpcResponse requestId result else formatMcpResponse srv result)
      | Inl error \<Rightarrow>
          if err_name error = ''InvalidParams'' then
            (if isRpc
             then formatJsonRpcError requestId (- 32602) (JStr (err_message error))
             else formatMcpError srv (JStr ''InvalidRequest'') (JStr (err_message error)))
          else
            (if isRpc
             then formatJsonRpcError requestId (- 32000) (JStr (err_message error))
             else formatMcpError srv (JStr ''InternalError'') (JStr (err_message error))))"

text \<open>The credential check, then the handler.\<close>

definition validate_and_run ::
  "server \<Rightarrow> env \<Rightarrow> tool \<Rightarrow> string \<Rightarrow> json \<Rightarrow> bool \<Rightarrow> json \<Rightarrow> json" where
  "validate_and_run srv env t name parameters isRpc requestId =
     (case validateApiKeys srv env of
        Some msg \<Rightarrow>
          (if isRpc
           then formatJsonRpcError requestId (- 32602) (JStr msg)
           else formatMcpError srv (JStr ''MissingApiKey'') (JStr msg))
      | None \<Rightarrow> run_handler srv t name parameters isRpc requestId)"

text \<open>
  The rate-limit check \<open>this.rateLimiters[name] && !this.options.mockMode\<close> followed by
  \<open>check()\<close>: whether the limit is exceeded, and the server with the limiter's tables
  updated; \<open>Inl\<close> when the member found under the name is not a limiter.
\<close>

definition rate_limit_check :: "server \<Rightarrow> string \<Rightarrow> int \<Rightarrow> js_error + bool \<times> server" where
  "rate_limit_check srv name now =
     (if mockMode (options srv) then Inr (False, srv)
      else
        (case rateLimiters srv name of
           Some l \<Rightarrow>
             (let (exceeded, l') = check l ''default'' now
              in Inr (exceeded, srv\<lparr>rateLimiters := (rateLimiters srv)(name \<mapsto> l')\<rparr>))
         | None \<Rightarrow>
             if name \<in> set Object_prototype_keys
             then Inl (TypeError ''this.rateLimiters[name].check is not a function'')
             else Inr (False, srv)))"

definition rate_limit_response :: "server \<Rightarrow> string \<Rightarrow> bool \<Rightarrow> json \<Rightarrow> json" where
  "rate_limit_response srv name isRpc requestId =
     (let error = (case rateLimiters srv name of
                     Some l \<Rightarrow> getError l ''default''
                   | None \<Rightarrow> (''RateLimitExceeded'', ''Rate limit exceeded''))
      in if isRpc
         then formatJsonRpcError requestId (- 32000) (JStr (snd error))
         else formatMcpError srv (JStr (fst error)) (JStr (snd error)))"

text \<open>
  \<open>executeToolCall(name, parameters, isJsonRpc, requestId)\<close> in environment \<open>env\<close> at
  time \<open>now\<close>: the response (\<open>Inl\<close> when the call throws) and the server with its rate
  windows updated.
\<close>

definition executeToolCall ::
  "server \<Rightarrow> env \<Rightarrow> int \<Rightarrow> string \<Rightarrow> json \<Rightarrow> bool \<Rightarrow> json \<Rightarrow> (js_error + json) \<times> server" where
  "executeToolCall srv env now name parameters isRpc requestId =
     (if name = ''list_resources'' then
        (Inr (handleListResources srv (with_serverName srv parameters) isRpc requestId), srv)
      else if name = ''read_resource'' then
        (Inr (handleReadResource srv (with_serverName srv parameters) isRpc requestId), srv)
      else
        (case findTool srv name of
           None \<Rightarrow>
             (Inr (if isRpc
                   then formatJsonRpcError requestId (- 32601) (JStr (''Tool not found: '' @ name))
                   else formatMcpError srv (JStr ''UnknownFunction'') (JStr (''Tool not found: '' @ name))),
              srv)
         | Some t \<Rightarrow>
             (case rate_limit_check srv name now of
                Inl e \<Rightarrow> (Inl e, srv)
              | Inr (exceeded, srv') \<Rightarrow>
                  if exceeded then (Inr (rate_limit_response srv' name isRpc requestId), srv')
                  else (Inr (validate_and_run srv' env t name parameters isRpc requestId), srv'))))"

text \<open>
  \<open>handleJsonRpcRequest\<close>. The head of the method is missing from the repository's
  sources; the body reads
  \<open>id\<close>, \<open>method\<close>, \<open>name\<close> and \<open>parameters\<close>, the fields of a parsed request. The method
  and the tool name are strings here (the empty string for a missing name).
\<close>

definition handleJsonRpcRequest ::
  "server \<Rightarrow> env \<Rightarrow> int \<Rightarrow> json \<Rightarrow> string \<Rightarrow> string \<Rightarrow> json \<Rightarrow> json \<times> server" where
  "handleJsonRpcRequest srv env now rid method name parameters =
     (if method = ''initialize'' then
        (formatJsonRpcResponse rid
           (JObj [(''name'', JStr (serverName (options srv))),
                  (''version'', JStr (version (options srv))),
                  (''vendor'', JStr (vendor (options srv))),
                  (''protocolVersion'', JStr (protocolVersion (options srv)))]), srv)
      else if method = ''tools/list'' then
        (formatJsonRpcResponse rid (JObj [(''tools'', JArr (getToolDefinitions srv))]), srv)
      else if method = ''tools/execute'' then
        (if name = [] then
           (formatJsonRpcError rid (- 32602) (JStr ''Invalid params: missing tool name''), srv)
         else if name = ''create_session''
                 \<and> (\<not> truthy parameters \<or> \<not> truthy (get parameters ''topic'')) then
           (formatJsonRpcError rid (- 32602) (JStr (''Required parameter '' @ [CHR 0x22] @ ''topic'' @ [CHR 0x22] @ '' is missing'')), srv)
         else
           (case executeToolCall srv env now name parameters True rid of
              (Inr response, srv') \<Rightarrow> (response, srv')
            | (Inl err, srv') \<Rightarrow>
                (formatJsonRpcError rid (- 32000)
                   (JStr (if err_message err \<noteq> [] then err_message err else ''Internal error'')), srv')))
      else (formatJsonRpcError rid (- 32601) (JStr (''Method not found: '' @ method)), srv))"




section \<open>Fixtures\<close>

text \<open>
  Concrete servers, providers and schemas on which the statements below are run.
  \<open>silent_network\<close>: every provider answers without a payload. \<open>result_schema\<close>: the
  schema \<open>z.object({ result: z.string() })\<close>.
\<close>

definition silent_network :: network where
  "silent_network =
     \<lparr>openai_create = (\<lambda>i ms c. Inr \<lparr>tool_arguments = None, message_content = None\<rparr>),
      anthropic_create = (\<lambda>i ms c. None),
      perplexity_post = (\<lambda>i ms c. None)\<rparr>"

definition result_schema :: zod_schema where
  \<open>result_schema =
     \<lparr>safeParse_success = (\<lambda>v. case get v ''result'' of JStr s \<Rightarrow> True | _ \<Rightarrow> False),
      zodToJsonSchema = ''{"type":"object","properties":{"result":{"type":"string"}},"required":["result"]}''\<rparr>\<close>

definition no_options :: llm_options where
  "no_options = \<lparr>systemMessage = None, schema = None, maxTries = None, rest = empty_config\<rparr>"

text \<open>
  \<open>offschema_network\<close>: OpenAI answers every call with the tool-call payload
  \<open>{"foo":1}\<close>, an object without the \<open>result\<close> field that \<open>result_schema\<close> requires.
  \<open>test_env\<close> sets the OpenAI credential.
\<close>

definition offschema_network :: network where
  \<open>offschema_network =
     \<lparr>openai_create = (\<lambda>i ms c. Inr \<lparr>tool_arguments = Some ''{"foo":1}'', message_content = None\<rparr>),
      anthropic_create = (\<lambda>i ms c. None),
      perplexity_post = (\<lambda>i ms c. None)\<rparr>\<close>

definition test_env :: env where
  "test_env = [''OPENAI_API_KEY'' \<mapsto> ''sk-test'']"

definition two_tries :: llm_options where
  "two_tries = \<lparr>systemMessage = None, schema = None, maxTries = Some 2, rest = empty_config\<rparr>"

text \<open>Provider answers used below: free text around or inside JSON.\<close>

definition nested_in_prose :: string where
  \<open>nested_in_prose = ''Here is the result: {"a":{"b":1}} as requested''\<close>

definition flat_in_prose :: string where
  \<open>flat_in_prose = ''Here is the result: {"a":1} as requested''\<close>

definition fenced_in_prose :: string where
  \<open>fenced_in_prose = ''Sure: ```json {"a":{"b":1}} ``` and {"c":2}''\<close>

definition fence_inside_json :: string where
  \<open>fence_inside_json = ''{"a":"```[1]```"}''\<close>

definition bare_array :: string where
  \<open>bare_array = ''[1, 2]''\<close>

definition whole_json :: string where
  \<open>whole_json = '' {"a":1, "b":[true, null]} ''\<close>

definition no_json :: string where
  \<open>no_json = ''I cannot answer that.''\<close>

text \<open>
  Servers used below. \<open>default_options\<close> are the defaults of the constructor;
  \<open>McpServer\<close> is a new server with the given options. \<open>echo\<close> returns its parameters;
  \<open>article\<close> returns \<open>{type: "article", message: "draft text"}\<close>; \<open>envelope\<close> returns an
  object that has a protocol version and an error beside other fields.
\<close>

definition default_options :: options where
  "default_options =
     \<lparr>serverName = ''mcp-server'', version = ''1.0.0'', vendor = [], protocolVersion = ''1.0'',
      mockMode = False, getMockData = None\<rparr>"

definition McpServer :: "options \<Rightarrow> server" where
  "McpServer opts =
     \<lparr>options = opts, tools = [], apiKeySchemas = [], rateLimiters = Map.empty,
      handleReadResource = (\<lambda>params isRpc requestId. JNull)\<rparr>"

definition echo :: tool where
  "echo = \<lparr>tool_name = ''echo'', tool_description = ''Returns its parameters'',
           tool_parameters = JObj [(''type'', JStr ''object'')],
           tool_handler = (\<lambda>parameters. Inr parameters)\<rparr>"

definition article :: tool where
  "article = \<lparr>tool_name = ''article'', tool_description = ''Drafts an article'',
              tool_parameters = JObj [(''type'', JStr ''object'')],
              tool_handler = (\<lambda>parameters.
                Inr (JObj [(''type'', JStr ''article''), (''message'', JStr ''draft text'')]))\<rparr>"

definition envelope_value :: json where
  "envelope_value =
     JObj [(''protocolVersion'', JStr ''1.0''),
           (''error'', JObj [(''type'', JStr ''Busy''), (''message'', JStr ''try later'')]),
           (''result'', JObj [(''partial'', JBool True)]),
           (''type'', JStr ''article''), (''message'', JStr ''draft text'')]"

definition envelope :: tool where
  "envelope = \<lparr>tool_name = ''envelope'', tool_description = ''Answers with an envelope of its own'',
               tool_parameters = JObj [(''type'', JStr ''object'')],
               tool_handler = (\<lambda>parameters. Inr envelope_value)\<rparr>"

definition test_server :: server where
  "test_server = (McpServer default_options)\<lparr>tools := [echo, article, envelope]\<rparr>"

text \<open>
  The configuration that \<open>callLLM\<close> hands to the handler on every attempt: the resolved
  configuration with \<open>schema\<close> set to the converted schema. \<open>five_retries\<close> is the third
  argument \<open>{ maxRetries: 5 }\<close>.
\<close>

definition config_sent :: "env \<Rightarrow> zod_schema \<Rightarrow> llm_arg \<Rightarrow> llm_options \<Rightarrow> llm_config" where
  "config_sent env dflt llm cfg =
     (resolve_config env llm cfg)\<lparr>json_schema := Some (zodToJsonSchema (the_schema dflt cfg))\<rparr>"

definition five_retries :: llm_options where
  "five_retries =
     \<lparr>systemMessage = None, schema = None, maxTries = None,
      rest = empty_config\<lparr>maxRetries := Some 5\<rparr>\<rparr>"

text \<open>
  Request lines: the versioned request as the specification writes it, and the one the
  parser recognises.
\<close>

definition claimed_request_line :: string where
  \<open>claimed_request_line =
     ''{"protocolVersion":"2.0","id":7,"method":"execute","params":{"name":"echo","parameters":{"x":1}}}''\<close>

definition jsonrpc_request_line :: string where
  \<open>jsonrpc_request_line =
     ''{"jsonrpc":"2.0","id":7,"method":"tools/execute","params":{"name":"echo","parameters":{"x":1}}}''\<close>




section \<open>Properties of the generation-invocation core\<close>

declare attempts.simps [simp del]

text \<open>While every attempt comes back empty, the loop runs to its bound.\<close>

lemma attempts_all_empty:
  assumes "\<And>j. i \<le> j \<Longrightarrow> j < tries \<Longrightarrow>
             \<exists>r. h (nat j) m c = Inr r \<and> \<not> (truthy r \<and> 0 < keys_length r)"
  shows "attempts h m c tries i lastErr sent = (Inl lastErr, sent @ replicate (nat (tries - i)) m)"
  using assms
proof (induction "nat (tries - i)" arbitrary: i sent)
  case 0
  then have "\<not> i < tries" by simp
  with 0 show ?case by (subst attempts.simps) simp
next
  case (Suc n)
  then have lt: "i < tries" by simp
  obtain r where r: "h (nat i) m c = Inr r" "\<not> (truthy r \<and> 0 < keys_length r)"
    using Suc.prems [of i] lt by auto
  have n: "n = nat (tries - (i + 1))" using Suc.hyps(2) by simp
  have IH: "attempts h m c tries (i + 1) lastErr (sent @ [m])
              = (Inl lastErr, (sent @ [m]) @ replicate (nat (tries - (i + 1))) m)"
    by (rule Suc.hyps(1) [OF n]) (use Suc.prems in auto)
  have rep: "replicate (nat (tries - i)) m = m # replicate (nat (tries - (i + 1))) m"
    using Suc.hyps(2) n by (metis replicate_Suc)
  show ?case
    by (subst attempts.simps) (use lt r IH rep in auto)
qed

text \<open>Whatever the handler does, each attempt is handed the same message list.\<close>

lemma attempts_sent:
  "\<exists>k. snd (attempts h m c tries i lastErr sent) = sent @ replicate k m"
proof (induction h m c tries i lastErr sent rule: attempts.induct)
  case (1 h m c tries i lastErr sent)
  show ?case
  proof (cases "i < tries")
    case False
    then have "snd (attempts h m c tries i lastErr sent) = sent @ replicate 0 m"
      by (subst attempts.simps) simp
    then show ?thesis by blast
  next
    case True
    show ?thesis
    proof (cases "h (nat i) m c")
      case (Inl e)
      from 1(1) [OF True Inl] obtain k where
        "snd (attempts h m c tries (i + 1) (Some e) (sent @ [m])) = (sent @ [m]) @ replicate k m"
        by blast
      then have "snd (attempts h m c tries i lastErr sent) = sent @ replicate (Suc k) m"
        by (subst attempts.simps) (use True Inl in simp)
      then show ?thesis by blast
    next
      case (Inr r)
      show ?thesis
      proof (cases "truthy r \<and> 0 < keys_length r")
        case nonempty: True
        have "snd (attempts h m c tries i lastErr sent) = sent @ replicate (Suc 0) m"
          by (subst attempts.simps) (use True Inr nonempty in simp)
        then show ?thesis by blast
      next
        case False
        from 1(2) [OF True Inr False] obtain k where
          "snd (attempts h m c tries (i + 1) lastErr (sent @ [m])) = (sent @ [m]) @ replicate k m"
          by blast
        then have "snd (attempts h m c tries i lastErr sent) = sent @ replicate (Suc k) m"
          by (subst attempts.simps) (use True Inr False in auto)
        then show ?thesis by blast
      qed
    qed
  qed
qed

text \<open>A first attempt that comes back non-empty ends the loop.\<close>

lemma attempts_first:
  assumes "0 < tries" "h 0 m c = Inr r" "truthy r" "0 < keys_length r"
  shows "attempts h m c tries 0 lastErr sent = (Inr r, sent @ [m])"
  by (subst attempts.simps) (use assms in simp)

lemma resolve_config_provider [simp]:
  "provider (resolve_config env llm cfg) = provider (merged_config llm cfg)"
  "model (resolve_config env llm cfg) = model (merged_config llm cfg)"
  by (simp_all add: resolve_config_def Let_def)

lemma resolve_config_empty_key:
  "apiKey (resolve_config env llm cfg) = Some [] \<longleftrightarrow>
     (apiKey (merged_config llm cfg) = None \<or> apiKey (merged_config llm cfg) = Some [])
       \<and> (env (show_opt (key (merged_config llm cfg))) = None
            \<or> env (show_opt (key (merged_config llm cfg))) = Some [])"
  by (auto simp: resolve_config_def Let_def or_else_def readKey_def split: option.splits)

text \<open>
  Claim C6. If the configuration resolves to an empty credential (no \<open>apiKey\<close> was given,
  or an empty one, and the environment variable named by \<open>key\<close> is unset or empty), then
  \<open>callLLM\<close> throws \<open>No API key found for <model>\<close> before the retry loop: no message
  list is handed to a provider handler.
\<close>

theorem callLLM_empty_credential_fails_fast:
  assumes "apiKey (merged_config llm cfg) = None \<or> apiKey (merged_config llm cfg) = Some []"
    and "env (show_opt (key (merged_config llm cfg))) = None
           \<or> env (show_opt (key (merged_config llm cfg))) = Some []"
  shows "callLLM net env dflt prompt llm cfg
           = (Inl (Error (''No API key found for '' @ show_opt (model (merged_config llm cfg)))), [])"
proof -
  have "apiKey (resolve_config env llm cfg) = Some []"
    using assms by (simp add: resolve_config_empty_key)
  then show ?thesis
    by (simp add: callLLM_def Let_def)
qed

theorem callLLM_empty_credential_witness:
  "callLLM silent_network Map.empty result_schema ''Summarise the draft'' (Name ''gpt4oMini'') no_options
     = (Inl (Error ''No API key found for gpt-4o-mini''), [])"
proof -
  have m: "merged_config (Name ''gpt4oMini'') no_options = preset ''openai'' ''gpt-4o-mini'' ''OPENAI_API_KEY''"
    by (simp add: merged_config_def LLM_CONFIGS_def no_options_def spread_def empty_config_def preset_def)
  show ?thesis
    using callLLM_empty_credential_fails_fast
      [of "Name ''gpt4oMini''" no_options Map.empty silent_network result_schema "''Summarise the draft''"]
    by (simp add: m preset_def show_opt_def)
qed

lemma merged_config_gpt4oMini:
  "rest cfg = empty_config \<Longrightarrow>
   merged_config (Name ''gpt4oMini'') cfg = preset ''openai'' ''gpt-4o-mini'' ''OPENAI_API_KEY''"
  by (simp add: merged_config_def LLM_CONFIGS_def spread_def empty_config_def preset_def)

lemma resolve_config_gpt4oMini:
  "rest cfg = empty_config \<Longrightarrow>
   resolve_config test_env (Name ''gpt4oMini'') cfg
     = (preset ''openai'' ''gpt-4o-mini'' ''OPENAI_API_KEY'')\<lparr>apiKey := Some ''sk-test''\<rparr>"
  by (simp add: resolve_config_def merged_config_gpt4oMini preset_def or_else_def readKey_def
        show_opt_def test_env_def)

lemma JSON_parse_foo: \<open>JSON_parse ''{"foo":1}'' = Some (JObj [(''foo'', JNum 1)])\<close>
  by code_simp

lemma openai_handler_offschema:
  "openai_handler offschema_network i ms c = Inr (JObj [(''foo'', JNum 1)])"
  by (simp add: openai_handler_def offschema_network_def or_else_def JSON_parse_foo)

lemma openai_handler_silent:
  "openai_handler silent_network i ms c = Inr JNull"
  by (simp add: openai_handler_def silent_network_def or_else_def extractJson_def)

text \<open>Once an error has been caught, the loop cannot end without a last error.\<close>

lemma attempts_after_error:
  "fst (attempts h m c tries i (Some e) sent) \<noteq> Inl None"
proof (induction "nat (tries - i)" arbitrary: i e sent)
  case 0
  then have "\<not> i < tries" by simp
  then show ?case by (subst attempts.simps) simp
next
  case (Suc n)
  then have lt: "i < tries" by simp
  have n: "n = nat (tries - (i + 1))" using Suc.hyps(2) by simp
  show ?case
  proof (cases "h (nat i) m c")
    case (Inl e')
    with lt Suc.hyps(1) [OF n] show ?thesis by (subst attempts.simps) simp
  next
    case (Inr r)
    with lt Suc.hyps(1) [OF n] show ?thesis by (subst attempts.simps) simp
  qed
qed

text \<open>
  A loop that ends exhausted and without a last error has applied the handler at every
  index up to its bound, and each time got an empty result.
\<close>

lemma attempts_exhausted_imp_empty:
  assumes "attempts h m c tries i None sent = (Inl None, sent')"
    and "i \<le> j" and "j < tries"
  shows "\<exists>r. h (nat j) m c = Inr r \<and> \<not> (truthy r \<and> 0 < keys_length r)"
  using assms
proof (induction "nat (tries - i)" arbitrary: i sent)
  case 0
  then show ?case by simp
next
  case (Suc n)
  then have lt: "i < tries" by simp
  have n: "n = nat (tries - (i + 1))" using Suc.hyps(2) by simp
  show ?case
  proof (cases "h (nat i) m c")
    case (Inl e)
    then have "attempts h m c tries i None sent = attempts h m c tries (i + 1) (Some e) (sent @ [m])"
      using lt by (subst attempts.simps) simp
    with Suc.prems(1) attempts_after_error [of h m c tries "i + 1" e "sent @ [m]"]
    show ?thesis by simp
  next
    case (Inr r)
    show ?thesis
    proof (cases "truthy r \<and> 0 < keys_length r")
      case True
      then have "attempts h m c tries i None sent = (Inr r, sent @ [m])"
        using lt Inr by (subst attempts.simps) simp
      with Suc.prems(1) show ?thesis by simp
    next
      case False
      then have step: "attempts h m c tries i None sent
                         = attempts h m c tries (i + 1) None (sent @ [m])"
        using lt Inr by (subst attempts.simps) auto
      show ?thesis
      proof (cases "j = i")
        case True
        with Inr False show ?thesis by blast
      next
        case neq: False
        with Suc.prems(2) have "i + 1 \<le> j" by simp
        from Suc.hyps(1) [OF n _ this Suc.prems(3)] step Suc.prems(1)
        show ?thesis by simp
      qed
    qed
  qed
qed

lemma merged_config_five_retries:
  "merged_config (Name ''gpt4oMini'') five_retries
     = (preset ''openai'' ''gpt-4o-mini'' ''OPENAI_API_KEY'')\<lparr>maxRetries := Some 5\<rparr>"
  by (simp add: merged_config_def LLM_CONFIGS_def five_retries_def spread_def empty_config_def
        preset_def)

text \<open>
  Claim C5, as stated, fails: the code does not read an option named \<open>maxRetries\<close>. Called
  with \<open>{ maxRetries: 5 }\<close> and a provider that always answers nothing, \<open>callLLM\<close> makes
  three attempts, the default of the option \<open>maxTries\<close>, and the message names three; the
  value five only travels with the configuration.
\<close>

theorem callLLM_maxRetries_ignored_counterexample:
  "maxRetries (rest five_retries) = Some 5
   \<and> maxRetries (config_sent test_env result_schema (Name ''gpt4oMini'') five_retries) = Some 5
   \<and> callLLM silent_network test_env result_schema ''Summarise the draft'' (Name ''gpt4oMini'')
         five_retries
       = (Inl (Error ''Failed after 3 attempts. No valid response received. Last response: undefined''),
          replicate 3 (compose_messages result_schema ''Summarise the draft'' five_retries))
   \<and> length (snd (callLLM silent_network test_env result_schema ''Summarise the draft''
                     (Name ''gpt4oMini'') five_retries)) = 3"
proof -
  have r: "resolve_config test_env (Name ''gpt4oMini'') five_retries
             = (preset ''openai'' ''gpt-4o-mini'' ''OPENAI_API_KEY'')
                 \<lparr>maxRetries := Some 5, apiKey := Some ''sk-test''\<rparr>"
    by (simp add: resolve_config_def merged_config_five_retries preset_def or_else_def readKey_def
          show_opt_def test_env_def)
  have t: "maxTries five_retries = None" by (simp add: five_retries_def)
  have loop: "attempts (openai_handler silent_network) ms c 3 0 None [] = (Inl None, replicate 3 ms)"
    for ms c
    using attempts_all_empty [of 0 3 "openai_handler silent_network" ms c None "[]"]
    by (simp add: openai_handler_silent)
  have s: "show_int 3 = ''3''" by code_simp
  have "callLLM silent_network test_env result_schema ''Summarise the draft'' (Name ''gpt4oMini'')
          five_retries
        = (Inl (Error ''Failed after 3 attempts. No valid response received. Last response: undefined''),
           replicate 3 (compose_messages result_schema ''Summarise the draft'' five_retries))"
    by (simp add: callLLM_def Let_def r merged_config_five_retries t preset_def select_handler_def
          loop s)
  moreover have "maxRetries (rest five_retries) = Some 5"
    by (simp add: five_retries_def)
  moreover have "maxRetries (config_sent test_env result_schema (Name ''gpt4oMini'') five_retries)
                   = Some 5"
    by (simp add: config_sent_def r)
  ultimately show ?thesis by simp
qed

text \<open>
  Claim C5, amended. Let \<open>N \<ge> 1\<close> be the retry ceiling that the code reads: the option
  \<open>maxTries\<close>, or 3 when it is not given. When the credential is present and the provider
  is supported, \<open>callLLM\<close> makes exactly \<open>N\<close> attempts and then fails with the error
  \<open>Failed after N attempts. No valid response received. Last response: undefined\<close>
  if and only if the provider's handler, applied to the composed messages and the
  configuration, returns an empty result on each of the attempts \<open>0, ..., N - 1\<close>. What
  the handler would do on a later attempt, or on other arguments, plays no part.
\<close>

theorem callLLM_fails_after_maxTries_iff_all_empty:
  assumes "(case maxTries cfg of None \<Rightarrow> 3 | Some n \<Rightarrow> n) = N" and "1 \<le> N"
    and "apiKey (resolve_config env llm cfg) \<noteq> Some []"
    and "select_handler net env (provider (merged_config llm cfg)) = Some h"
  shows "(\<forall>i < nat N. \<exists>r. h i (compose_messages dflt prompt cfg) (config_sent env dflt llm cfg) = Inr r
                          \<and> \<not> (truthy r \<and> 0 < keys_length r))
         \<longleftrightarrow>
         callLLM net env dflt prompt llm cfg
           = (Inl (Error (''Failed after '' @ show_int N
                            @ '' attempts. No valid response received. Last response: undefined'')),
              replicate (nat N) (compose_messages dflt prompt cfg))"
proof -
  let ?m = "compose_messages dflt prompt cfg"
  let ?c = "config_sent env dflt llm cfg"
  let ?loop = "attempts h ?m ?c N 0 None []"
  let ?fail = "Inl (Error (''Failed after '' @ show_int N
                  @ '' attempts. No valid response received. Last response: undefined''))
               :: js_error + json"
  have call: "callLLM net env dflt prompt llm cfg
                = (case ?loop of
                     (Inr result, sent) \<Rightarrow> (Inr result, sent)
                   | (Inl lastErr, sent) \<Rightarrow>
                       (Inl (Error
                          ((case lastErr of
                              Some e \<Rightarrow>
                                ''Failed after '' @ show_int N @ '' attempts. Last error: ''
                                  @ err_message e
                            | None \<Rightarrow>
                                ''Failed after '' @ show_int N
                                  @ '' attempts. No valid response received.'')
                           @ '' Last response: undefined'')), sent))"
    using assms(1,3,4) by (simp add: callLLM_def Let_def config_sent_def)
  show ?thesis
  proof
    assume empty: "\<forall>i < nat N. \<exists>r. h i ?m ?c = Inr r \<and> \<not> (truthy r \<and> 0 < keys_length r)"
    have "?loop = (Inl None, [] @ replicate (nat (N - 0)) ?m)"
    proof (rule attempts_all_empty)
      fix j :: int
      assume "0 \<le> j" "j < N"
      then have "nat j < nat N" by simp
      with empty show "\<exists>r. h (nat j) ?m ?c = Inr r \<and> \<not> (truthy r \<and> 0 < keys_length r)" by blast
    qed
    then show "callLLM net env dflt prompt llm cfg = (?fail, replicate (nat N) ?m)"
      by (simp add: call)
  next
    assume fails: "callLLM net env dflt prompt llm cfg = (?fail, replicate (nat N) ?m)"
    obtain res sent where loop: "?loop = (res, sent)" by (cases ?loop)
    have "res = Inl None"
    proof (cases res)
      case (Inr r)
      with fails loop show ?thesis by (simp add: call)
    next
      case (Inl lastErr)
      show ?thesis
      proof (cases lastErr)
        case None
        with Inl show ?thesis by simp
      next
        case (Some e)
        with fails loop Inl show ?thesis by (simp add: call Error_def)
      qed
    qed
    with loop have ex: "?loop = (Inl None, sent)" by simp
    show "\<forall>i < nat N. \<exists>r. h i ?m ?c = Inr r \<and> \<not> (truthy r \<and> 0 < keys_length r)"
    proof (intro allI impI)
      fix i assume "i < nat N"
      then have "0 \<le> int i" "int i < N" by simp_all
      from attempts_exhausted_imp_empty [OF ex this]
      show "\<exists>r. h i ?m ?c = Inr r \<and> \<not> (truthy r \<and> 0 < keys_length r)" by simp
    qed
  qed
qed

theorem callLLM_fails_after_maxTries_witness:
  "callLLM silent_network test_env result_schema ''Summarise the draft'' (Name ''gpt4oMini'') two_tries
     = (Inl (Error ''Failed after 2 attempts. No valid response received. Last response: undefined''),
        replicate 2 (compose_messages result_schema ''Summarise the draft'' two_tries))
   \<and> callLLM offschema_network test_env result_schema ''Summarise the draft'' (Name ''gpt4oMini'')
         two_tries
       \<noteq> (Inl (Error ''Failed after 2 attempts. No valid response received. Last response: undefined''),
          replicate 2 (compose_messages result_schema ''Summarise the draft'' two_tries))"
proof -
  let ?m = "compose_messages result_schema ''Summarise the draft'' two_tries"
  let ?c = "config_sent test_env result_schema (Name ''gpt4oMini'') two_tries"
  have rest: "rest two_tries = empty_config" by (simp add: two_tries_def)
  have t: "(case maxTries two_tries of None \<Rightarrow> 3 | Some n \<Rightarrow> n) = 2"
    by (simp add: two_tries_def)
  have m: "merged_config (Name ''gpt4oMini'') two_tries
             = preset ''openai'' ''gpt-4o-mini'' ''OPENAI_API_KEY''"
    by (simp add: merged_config_def LLM_CONFIGS_def spread_def empty_config_def preset_def rest)
  have k: "apiKey (resolve_config test_env (Name ''gpt4oMini'') two_tries) \<noteq> Some []"
    by (simp add: resolve_config_def m preset_def or_else_def readKey_def show_opt_def test_env_def)
  have h: "select_handler net test_env (provider (merged_config (Name ''gpt4oMini'') two_tries))
             = Some (openai_handler net)" for net
    by (simp add: m preset_def select_handler_def)
  have silent: "\<forall>i < nat 2. \<exists>r. openai_handler silent_network i ?m ?c = Inr r
                  \<and> \<not> (truthy r \<and> 0 < keys_length r)"
    by (simp add: openai_handler_silent)
  have loud: "\<not> (\<forall>i < nat 2. \<exists>r. openai_handler offschema_network i ?m ?c = Inr r
                  \<and> \<not> (truthy r \<and> 0 < keys_length r))"
  proof
    assume "\<forall>i < nat 2. \<exists>r. openai_handler offschema_network i ?m ?c = Inr r
              \<and> \<not> (truthy r \<and> 0 < keys_length r)"
    then have "\<exists>r. openai_handler offschema_network 0 ?m ?c = Inr r
                 \<and> \<not> (truthy r \<and> 0 < keys_length r)"
      by simp
    then show False by (simp add: openai_handler_offschema)
  qed
  have s: "show_int 2 = ''2''" by code_simp
  show ?thesis
    using callLLM_fails_after_maxTries_iff_all_empty
        [where cfg = two_tries and N = 2 and env = test_env and llm = "Name ''gpt4oMini''"
           and net = silent_network and h = "openai_handler silent_network"
           and dflt = result_schema and prompt = "''Summarise the draft''",
         OF t _ k h]
      callLLM_fails_after_maxTries_iff_all_empty
        [where cfg = two_tries and N = 2 and env = test_env and llm = "Name ''gpt4oMini''"
           and net = offschema_network and h = "openai_handler offschema_network"
           and dflt = result_schema and prompt = "''Summarise the draft''",
         OF t _ k h]
      silent loud
    by (simp add: s)
qed


text \<open>
  Claim C1, at a failing input. The caller asks for the schema \<open>z.object({ result: z.string() })\<close>
  and the OpenAI handler returns the non-empty object \<open>{"foo":1}\<close>, which that schema
  rejects. \<open>callLLM\<close> returns the object after one attempt: nothing in the loop consults
  the schema.
\<close>

theorem callLLM_returns_unvalidated_object:
  "callLLM offschema_network test_env result_schema ''Summarise the draft'' (Name ''gpt4oMini'')
       (no_options\<lparr>schema := Some result_schema\<rparr>)
     = (Inr (JObj [(''foo'', JNum 1)]),
        [compose_messages result_schema ''Summarise the draft'' (no_options\<lparr>schema := Some result_schema\<rparr>)])
   \<and> \<not> safeParse_success result_schema (JObj [(''foo'', JNum 1)])"
proof -
  let ?cfg = "no_options\<lparr>schema := Some result_schema\<rparr>"
  have r: "rest ?cfg = empty_config" by (simp add: no_options_def)
  have loop: "attempts (openai_handler offschema_network) ms c 3 0 None []
                = (Inr (JObj [(''foo'', JNum 1)]), [ms])" for ms c
    using attempts_first [of 3 "openai_handler offschema_network" ms c "JObj [(''foo'', JNum 1)]" None "[]"]
    by (simp add: openai_handler_offschema)
  have t: "maxTries ?cfg = None" by (simp add: no_options_def)
  have "callLLM offschema_network test_env result_schema ''Summarise the draft'' (Name ''gpt4oMini'') ?cfg
          = (Inr (JObj [(''foo'', JNum 1)]), [compose_messages result_schema ''Summarise the draft'' ?cfg])"
    by (simp add: callLLM_def Let_def resolve_config_gpt4oMini [OF r] merged_config_gpt4oMini [OF r]
          t preset_def select_handler_def loop)
  moreover have "\<not> safeParse_success result_schema (JObj [(''foo'', JNum 1)])"
    by (simp add: result_schema_def)
  ultimately show ?thesis by simp
qed

text \<open>
  Claim C9, as stated, fails: with two tries and a provider that answers nothing, both
  attempts are made and the second is handed the very message list of the first.
\<close>

theorem callLLM_retry_same_messages_counterexample:
  "length (snd (callLLM silent_network test_env result_schema ''Summarise the draft''
                  (Name ''gpt4oMini'') two_tries)) = 2
   \<and> snd (callLLM silent_network test_env result_schema ''Summarise the draft''
            (Name ''gpt4oMini'') two_tries) ! 1
       = snd (callLLM silent_network test_env result_schema ''Summarise the draft''
               (Name ''gpt4oMini'') two_tries) ! 0"
proof -
  have r: "rest two_tries = empty_config" by (simp add: two_tries_def)
  have loop: "attempts (openai_handler silent_network) ms c 2 0 None [] = (Inl None, [ms, ms])" for ms c
    using attempts_all_empty [of 0 2 "openai_handler silent_network" ms c None "[]"]
    by (simp add: openai_handler_silent numeral_2_eq_2)
  have t: "maxTries two_tries = Some 2" by (simp add: two_tries_def)
  have "snd (callLLM silent_network test_env result_schema ''Summarise the draft''
               (Name ''gpt4oMini'') two_tries)
          = [compose_messages result_schema ''Summarise the draft'' two_tries,
             compose_messages result_schema ''Summarise the draft'' two_tries]"
    by (simp add: callLLM_def Let_def resolve_config_gpt4oMini [OF r] merged_config_gpt4oMini [OF r]
          t preset_def select_handler_def loop)
  then show ?thesis by simp
qed

text \<open>
  Claim C9, amended. A failed attempt changes nothing in what is sent: every attempt of
  \<open>callLLM\<close> is handed the message list composed before the loop (the system message, if
  any, and the prompt with the schema directive), so the list sent on attempt \<open>n + 1\<close> is
  the list sent on attempt \<open>n\<close>.
\<close>

theorem callLLM_every_attempt_same_messages:
  "snd (callLLM net env dflt prompt llm cfg)
     = replicate (length (snd (callLLM net env dflt prompt llm cfg))) (compose_messages dflt prompt cfg)"
proof -
  have rep: "xs = replicate k m \<Longrightarrow> xs = replicate (length xs) m" for xs :: "message list list" and k m
    by simp
  have loop: "\<exists>k. snd (attempts h (compose_messages dflt prompt cfg) c tries 0 None [])
                = replicate k (compose_messages dflt prompt cfg)" for h c tries
    using attempts_sent [of h "compose_messages dflt prompt cfg" c tries 0 None "[]"] by simp
  have "\<exists>k. snd (callLLM net env dflt prompt llm cfg) = replicate k (compose_messages dflt prompt cfg)"
  proof (cases "apiKey (resolve_config env llm cfg) = Some []")
    case True
    then have "snd (callLLM net env dflt prompt llm cfg) = replicate 0 (compose_messages dflt prompt cfg)"
      by (simp add: callLLM_def Let_def)
    then show ?thesis by blast
  next
    case key: False
    show ?thesis
    proof (cases "select_handler net env (provider (merged_config llm cfg))")
      case None
      with key have "snd (callLLM net env dflt prompt llm cfg) = replicate 0 (compose_messages dflt prompt cfg)"
        by (simp add: callLLM_def Let_def)
      then show ?thesis by blast
    next
      case (Some h)
      let ?c = "(resolve_config env llm cfg)\<lparr>json_schema := Some (zodToJsonSchema (the_schema dflt cfg))\<rparr>"
      let ?tries = "case maxTries cfg of None \<Rightarrow> 3 | Some n \<Rightarrow> n"
      obtain k where k: "snd (attempts h (compose_messages dflt prompt cfg) ?c ?tries 0 None [])
                          = replicate k (compose_messages dflt prompt cfg)"
        using loop by blast
      have "snd (callLLM net env dflt prompt llm cfg)
              = snd (attempts h (compose_messages dflt prompt cfg) ?c ?tries 0 None [])"
        using key Some by (simp add: callLLM_def Let_def split: prod.splits sum.splits)
      with k show ?thesis by metis
    qed
  qed
  then show ?thesis using rep by blast
qed


section \<open>Properties of the structured-payload extraction\<close>

lemma extractJson_nested_in_prose: "extractJson (Some nested_in_prose) = JNull"
  unfolding nested_in_prose_def by code_simp

lemma extractJson_flat_in_prose: "extractJson (Some flat_in_prose) = JObj [(''a'', JNum 1)]"
  unfolding flat_in_prose_def by code_simp

lemma brace_match_nested_in_prose:
  \<open>brace_match nested_in_prose = Some ''{"a":{"b":1}''\<close>
  unfolding nested_in_prose_def by code_simp

text \<open>
  The brace match of the nested example is not balanced. It fails to parse whatever the
  fuel: the failure is one of the text, not of the bound on the recursion.
\<close>

lemma unbalanced_match_deep:
  \<open>parse_value (Suc (Suc (Suc (Suc (Suc n))))) ''{"a":{"b":1}'' = None\<close>
  by (simp add: skip_ws_def is_ws_def parse_number_def parse_fraction_def parse_exponent_def
        is_digit_def Let_def)

lemma unbalanced_match_shallow:
  \<open>parse_value 0 ''{"a":{"b":1}'' = None\<close>
  \<open>parse_value 1 ''{"a":{"b":1}'' = None\<close>
  \<open>parse_value 2 ''{"a":{"b":1}'' = None\<close>
  \<open>parse_value 3 ''{"a":{"b":1}'' = None\<close>
  \<open>parse_value 4 ''{"a":{"b":1}'' = None\<close>
  by code_simp+

lemma unbalanced_match_never_parses: \<open>parse_value n ''{"a":{"b":1}'' = None\<close>
proof -
  consider "n = 0" | "n = 1" | "n = 2" | "n = 3" | "n = 4"
    | m where "n = Suc (Suc (Suc (Suc (Suc m))))"
    by (metis One_nat_def Suc_1 numeral_3_eq_3 numeral_eq_Suc not0_implies_Suc
          pred_numeral_simps(2) semiring_norm(26,27))
  then show ?thesis
    using unbalanced_match_deep unbalanced_match_shallow by cases auto
qed

text \<open>
  Claim C8, as stated, fails. The whole text is parsed first, before any fenced block is
  looked for: a response that is itself JSON and carries a fenced block inside a string
  yields the whole object, not the block; and a bare array, which has neither a fenced
  block nor a brace, is returned rather than the empty result. The claim's own example
  fails too: for a nested object in prose the brace pattern stops at the first closing
  brace, the match does not parse, and the result is \<open>null\<close>.
\<close>

theorem extractJson_order_counterexample:
  \<open>from_code_block fence_inside_json = Some (JArr [JNum 1])
   \<and> extractJson (Some fence_inside_json) = JObj [(''a'', JStr ''```[1]```'')]
   \<and> fence_match bare_array = None
   \<and> brace_match bare_array = None
   \<and> extractJson (Some bare_array) = JArr [JNum 1, JNum 2]
   \<and> extractJson (Some nested_in_prose) = JNull\<close>
proof -
  have 1: "from_code_block fence_inside_json = Some (JArr [JNum 1])"
    unfolding fence_inside_json_def by code_simp
  have 2: \<open>extractJson (Some fence_inside_json) = JObj [(''a'', JStr ''```[1]```'')]\<close>
    unfolding fence_inside_json_def by code_simp
  have 3: "fence_match bare_array = None"
    unfolding bare_array_def by code_simp
  have 4: "brace_match bare_array = None"
    unfolding bare_array_def by code_simp
  have 5: "extractJson (Some bare_array) = JArr [JNum 1, JNum 2]"
    unfolding bare_array_def by code_simp
  show ?thesis
    using 1 2 3 4 5 extractJson_nested_in_prose by simp
qed


lemma tryParse_empty: "tryParse [] = None"
  by code_simp

text \<open>
  Claim C8, amended. The extraction tries, in this order: (1) in the OpenAI handler, the
  arguments of the tool call, parsed directly, whenever they are present and non-empty
  (whatever the content is); otherwise \<open>extractJson\<close> on the content, which gives the
  empty result for a missing or empty text and else takes (2) the whole text, if it parses
  to an object or an array; (3) otherwise the content of the first fenced block, if it
  parses; (4) otherwise the brace-delimited match, if it parses, so that a flat object
  such as \<open>{"a":1}\<close> embedded in prose is extracted; (5) otherwise the empty result
  \<open>null\<close>. \<open>extractJson\<close> never throws.
\<close>

theorem extraction_strategy_order:
  "(openai_create netA iA msA cA = Inr respA \<and> tool_arguments respA = Some args \<and> args \<noteq> []
      \<and> JSON_parse args = Some v
      \<longrightarrow> openai_handler netA iA msA cA = Inr v)
   \<and> (openai_create netB iB msB cB = Inr respB
        \<and> (tool_arguments respB = None \<or> tool_arguments respB = Some [])
      \<longrightarrow> openai_handler netB iB msB cB = Inr (extractJson (message_content respB)))
   \<and> extractJson None = JNull
   \<and> extractJson (Some []) = JNull
   \<and> (tryParse t0 = Some v0 \<longrightarrow> extractJson (Some t0) = v0)
   \<and> (tryParse t1 = None \<and> from_code_block t1 = Some v1 \<longrightarrow> extractJson (Some t1) = v1)
   \<and> (tryParse t2 = None \<and> from_code_block t2 = None \<and> from_braces t2 = Some v2
      \<longrightarrow> extractJson (Some t2) = v2)
   \<and> (tryParse t3 = None \<and> from_code_block t3 = None \<and> from_braces t3 = None
      \<longrightarrow> extractJson (Some t3) = JNull)
   \<and> extractJson (Some flat_in_prose) = JObj [(''a'', JNum 1)]"
proof -
  have a: "openai_handler netA iA msA cA = Inr v"
    if "openai_create netA iA msA cA = Inr respA" "tool_arguments respA = Some args" "args \<noteq> []"
       "JSON_parse args = Some v"
    using that by (simp add: openai_handler_def or_else_def)
  have b: "openai_handler netB iB msB cB = Inr (extractJson (message_content respB))"
    if "openai_create netB iB msB cB = Inr respB"
       "tool_arguments respB = None \<or> tool_arguments respB = Some []"
    using that by (auto simp: openai_handler_def or_else_def)
  have c: "extractJson (Some t0) = v0" if "tryParse t0 = Some v0"
  proof -
    from that have "t0 \<noteq> []" using tryParse_empty by auto
    with that show ?thesis by (simp add: extractJson_def)
  qed
  have d: "extractJson (Some t1) = v1" if "tryParse t1 = None" "from_code_block t1 = Some v1"
  proof -
    from that(2) have "t1 \<noteq> []" by (auto simp: from_code_block_def)
    with that show ?thesis by (simp add: extractJson_def)
  qed
  have e: "extractJson (Some t2) = v2"
    if "tryParse t2 = None" "from_code_block t2 = None" "from_braces t2 = Some v2"
  proof -
    from that(3) have "t2 \<noteq> []" by (auto simp: from_braces_def)
    with that show ?thesis by (simp add: extractJson_def)
  qed
  have f: "extractJson (Some t3) = JNull"
    if "tryParse t3 = None" "from_code_block t3 = None" "from_braces t3 = None"
    using that by (simp add: extractJson_def)
  have g: "extractJson None = JNull" "extractJson (Some []) = JNull"
    by (simp_all add: extractJson_def)
  show ?thesis
    using a b c d e f g extractJson_flat_in_prose by blast
qed

theorem extraction_strategy_order_witness:
  "openai_handler offschema_network 0 [] empty_config = Inr (JObj [(''foo'', JNum 1)])
   \<and> openai_handler silent_network 0 [] empty_config = Inr JNull
   \<and> tryParse whole_json = Some (JObj [(''a'', JNum 1), (''b'', JArr [JBool True, JNull])])
   \<and> extractJson (Some whole_json) = JObj [(''a'', JNum 1), (''b'', JArr [JBool True, JNull])]
   \<and> tryParse fenced_in_prose = None
   \<and> from_code_block fenced_in_prose = Some (JObj [(''a'', JObj [(''b'', JNum 1)])])
   \<and> extractJson (Some fenced_in_prose) = JObj [(''a'', JObj [(''b'', JNum 1)])]
   \<and> tryParse flat_in_prose = None \<and> from_code_block flat_in_prose = None
   \<and> from_braces flat_in_prose = Some (JObj [(''a'', JNum 1)])
   \<and> extractJson (Some flat_in_prose) = JObj [(''a'', JNum 1)]
   \<and> tryParse no_json = None \<and> from_code_block no_json = None \<and> from_braces no_json = None
   \<and> extractJson (Some no_json) = JNull"
proof -
  have a1: \<open>openai_create offschema_network 0 [] empty_config
              = Inr \<lparr>tool_arguments = Some ''{"foo":1}'', message_content = None\<rparr>\<close>
    by (simp add: offschema_network_def)
  have b1: "openai_create silent_network 0 [] empty_config
              = Inr \<lparr>tool_arguments = None, message_content = None\<rparr>"
    by (simp add: silent_network_def)
  have c1: "tryParse whole_json = Some (JObj [(''a'', JNum 1), (''b'', JArr [JBool True, JNull])])"
    unfolding whole_json_def by code_simp
  have d1: "tryParse fenced_in_prose = None"
    unfolding fenced_in_prose_def by code_simp
  have d2: "from_code_block fenced_in_prose = Some (JObj [(''a'', JObj [(''b'', JNum 1)])])"
    unfolding fenced_in_prose_def by code_simp
  have e1: "tryParse flat_in_prose = None"
    unfolding flat_in_prose_def by code_simp
  have e2: "from_code_block flat_in_prose = None"
    unfolding flat_in_prose_def by code_simp
  have e3: "from_braces flat_in_prose = Some (JObj [(''a'', JNum 1)])"
    unfolding flat_in_prose_def by code_simp
  have f1: "tryParse no_json = None"
    unfolding no_json_def by code_simp
  have f2: "from_code_block no_json = None"
    unfolding no_json_def by code_simp
  have f3: "from_braces no_json = None"
    unfolding no_json_def by code_simp
  show ?thesis
    using extraction_strategy_order
      [where netA = offschema_network and iA = 0 and msA = "[]" and cA = empty_config
         and respA = \<open>\<lparr>tool_arguments = Some ''{"foo":1}'', message_content = None\<rparr>\<close>
         and args = \<open>''{"foo":1}''\<close> and v = "JObj [(''foo'', JNum 1)]"
         and netB = silent_network and iB = 0 and msB = "[]" and cB = empty_config
         and respB = "\<lparr>tool_arguments = None, message_content = None\<rparr>"
         and ?t0.0 = whole_json and ?v0.0 = "JObj [(''a'', JNum 1), (''b'', JArr [JBool True, JNull])]"
         and ?t1.0 = fenced_in_prose and ?v1.0 = "JObj [(''a'', JObj [(''b'', JNum 1)])]"
         and ?t2.0 = flat_in_prose and ?v2.0 = "JObj [(''a'', JNum 1)]"
         and ?t3.0 = no_json]
      a1 b1 c1 d1 d2 e1 e2 e3 f1 f2 f3 JSON_parse_foo
    by simp
qed


section \<open>Properties of the dispatch engine\<close>

lemma findTool_None_iff: "findTool srv name = None \<longleftrightarrow> name \<notin> tool_name ` set (tools srv)"
  by (auto simp: findTool_def find_None_iff)

lemma rate_limit_check_fields:
  assumes "rate_limit_check srv name now = Inr (b, srv')"
  shows "options srv' = options srv" "tools srv' = tools srv" "apiKeySchemas srv' = apiKeySchemas srv"
  using assms
  by (auto simp: rate_limit_check_def Let_def split: if_splits option.splits prod.splits)

lemma format_cong:
  assumes "options a = options b"
  shows "formatMcpError a ty msg = formatMcpError b ty msg"
    "formatMcpResponse a result = formatMcpResponse b result"
    "handler_outcome a t name parameters = handler_outcome b t name parameters"
  using assms by (simp_all add: formatMcpError_def formatMcpResponse_def handler_outcome_def)

lemma run_handler_cong:
  assumes "options a = options b"
  shows "run_handler a t name parameters isRpc requestId = run_handler b t name parameters isRpc requestId"
  unfolding run_handler_def format_cong [OF assms] ..

lemma validate_and_run_cong:
  assumes "options a = options b" "apiKeySchemas a = apiKeySchemas b"
  shows "validate_and_run a env t name parameters isRpc requestId
           = validate_and_run b env t name parameters isRpc requestId"
proof -
  have "validateApiKeys a env = validateApiKeys b env"
    using assms by (simp add: validateApiKeys_def)
  then show ?thesis
    unfolding validate_and_run_def run_handler_cong [OF assms(1)] format_cong [OF assms(1)] by simp
qed

lemma executeToolCall_tool:
  assumes "findTool srv name = Some t" "name \<noteq> ''list_resources''" "name \<noteq> ''read_resource''"
    and "rate_limit_check srv name now = Inr (False, srv')"
  shows "executeToolCall srv env now name parameters isRpc requestId
           = (Inr (validate_and_run srv env t name parameters isRpc requestId), srv')"
  using assms validate_and_run_cong [OF rate_limit_check_fields(1,3) [OF assms(4)]]
  by (simp add: executeToolCall_def)

lemma test_server_fields:
  "options test_server = default_options" "tools test_server = [echo, article, envelope]"
  "apiKeySchemas test_server = []" "rateLimiters test_server = Map.empty"
  by (simp_all add: test_server_def McpServer_def)

lemma tool_names [simp]:
  "tool_name echo = ''echo''" "tool_name article = ''article''" "tool_name envelope = ''envelope''"
  by (simp_all add: echo_def article_def envelope_def)

lemma findTool_test_server:
  "findTool test_server ''echo'' = Some echo" "findTool test_server ''article'' = Some article"
  "findTool test_server ''envelope'' = Some envelope" "findTool test_server ''unknown_op'' = None"
  by (simp_all add: findTool_def test_server_fields)

lemma rate_limit_check_test_server:
  "name \<notin> set Object_prototype_keys \<Longrightarrow> rate_limit_check test_server name now = Inr (False, test_server)"
  by (simp add: rate_limit_check_def test_server_fields default_options_def)

lemma validateApiKeys_test_server: "validateApiKeys test_server env = None"
  by (simp add: validateApiKeys_def test_server_fields List.map_filter_simps)

lemma handler_outcome_test_server:
  "handler_outcome test_server t name parameters = tool_handler t parameters"
  by (simp add: handler_outcome_def test_server_fields default_options_def)

text \<open>
  Claim C3, as stated, fails: for the unknown tool \<open>unknown_op\<close> the kind of the error is
  \<open>UnknownFunction\<close>, not \<open>UnknownOperation\<close>.
\<close>

theorem unknown_tool_kind_counterexample:
  "fst (executeToolCall test_server Map.empty 0 ''unknown_op'' (JObj []) False JNull)
     = Inr (JObj [(''protocolVersion'', JStr ''1.0''),
                  (''error'', JObj [(''type'', JStr ''UnknownFunction''),
                                    (''message'', JStr ''Tool not found: unknown_op'')])])
   \<and> fst (executeToolCall test_server Map.empty 0 ''unknown_op'' (JObj []) False JNull)
       \<noteq> Inr (formatMcpError test_server (JStr ''UnknownOperation'') (JStr ''Tool not found: unknown_op''))"
  by (simp add: executeToolCall_def findTool_test_server formatMcpError_def test_server_fields
        default_options_def)

text \<open>
  Claim C3, amended. For every tool name that is not in the registry and is not one of
  the built-in operations \<open>list_resources\<close> and \<open>read_resource\<close>, \<open>executeToolCall\<close>
  answers in the simple shape with an error envelope whose kind is exactly
  \<open>UnknownFunction\<close>, with the message \<open>Tool not found: <name>\<close>; in its versioned
  branch it answers with the JSON-RPC error \<open>-32601\<close> with the same message. The server
  is left unchanged.
\<close>

theorem unknown_tool_is_UnknownFunction:
  assumes "name \<notin> tool_name ` set (tools srv)"
    and "name \<noteq> ''list_resources''" and "name \<noteq> ''read_resource''"
  shows "executeToolCall srv env now name parameters False requestId
           = (Inr (formatMcpError srv (JStr ''UnknownFunction'') (JStr (''Tool not found: '' @ name))), srv)
         \<and> get (get (formatMcpError srv (JStr ''UnknownFunction'') (JStr (''Tool not found: '' @ name)))
                  ''error'') ''type'' = JStr ''UnknownFunction''
         \<and> executeToolCall srv env now name parameters True requestId
           = (Inr (formatJsonRpcError requestId (- 32601) (JStr (''Tool not found: '' @ name))), srv)"
proof -
  have "findTool srv name = None" using assms(1) by (simp add: findTool_None_iff)
  then show ?thesis
    using assms(2,3) by (simp add: executeToolCall_def formatMcpError_def)
qed

theorem unknown_tool_is_UnknownFunction_witness:
  "executeToolCall test_server Map.empty 0 ''unknown_op'' (JObj []) False JNull
     = (Inr (formatMcpError test_server (JStr ''UnknownFunction'') (JStr ''Tool not found: unknown_op'')),
        test_server)
   \<and> get (get (formatMcpError test_server (JStr ''UnknownFunction'') (JStr ''Tool not found: unknown_op''))
            ''error'') ''type'' = JStr ''UnknownFunction''
   \<and> executeToolCall test_server Map.empty 0 ''unknown_op'' (JObj []) True JNull
     = (Inr (formatJsonRpcError JNull (- 32601) (JStr ''Tool not found: unknown_op'')), test_server)"
  using unknown_tool_is_UnknownFunction
    [of "''unknown_op''" test_server Map.empty 0 "JObj []" JNull]
  by (simp add: test_server_fields)

text \<open>
  Claim C4, as stated, fails. The line of the claim has no \<open>jsonrpc\<close> member, so the parser
  takes it for the simple shape and finds no tool name in it; and the method \<open>execute\<close>
  is not one the versioned dispatcher knows.
\<close>

theorem versioned_scenario_counterexample:
  "parseMcpRequest claimed_request_line
     = Inr \<lparr>isJsonRpc = False, req_id = JUndefined, req_method = JUndefined,
            req_name = JUndefined, req_parameters = JUndefined\<rparr>
   \<and> fst (handleJsonRpcRequest test_server Map.empty 0 (JNum 7) ''execute'' ''echo'' (JObj [(''x'', JNum 1)]))
       = JObj [(''jsonrpc'', JStr ''2.0''), (''id'', JNum 7),
               (''error'', JObj [(''code'', JNum (- 32601)),
                                 (''message'', JStr ''Method not found: execute'')])]"
proof -
  have "parseMcpRequest claimed_request_line
          = Inr \<lparr>isJsonRpc = False, req_id = JUndefined, req_method = JUndefined,
                 req_name = JUndefined, req_parameters = JUndefined\<rparr>"
    unfolding claimed_request_line_def by code_simp
  then show ?thesis
    by (simp add: handleJsonRpcRequest_def formatJsonRpcError_def)
qed

text \<open>
  Claim C4, amended. The versioned shape is recognised by the member \<open>jsonrpc: "2.0"\<close> and
  the method that runs a tool is \<open>tools/execute\<close>: the line
  \<open>{"jsonrpc":"2.0","id":7,"method":"tools/execute","params":{"name":"echo","parameters":{"x":1}}}\<close>
  parses to a versioned request with id \<open>7\<close>, method \<open>tools/execute\<close>, tool \<open>echo\<close> and
  parameters \<open>{x:1}\<close>; and where a tool \<open>echo\<close> is registered whose handler returns
  \<open>{x:1}\<close> on these parameters (no rate limit exceeded, credentials valid, no mock data),
  the response to that request is \<open>{jsonrpc:"2.0", id:7, result:{x:1}}\<close>.
\<close>

theorem jsonrpc_execute_echo:
  assumes "findTool srv ''echo'' = Some t"
    and "tool_handler t (JObj [(''x'', JNum 1)]) = Inr (JObj [(''x'', JNum 1)])"
    and "rate_limit_check srv ''echo'' now = Inr (False, srv')"
    and "validateApiKeys srv env = None"
    and "\<not> mockMode (options srv) \<or> getMockData (options srv) = None"
  shows "parseMcpRequest jsonrpc_request_line
           = Inr \<lparr>isJsonRpc = True, req_id = JNum 7, req_method = JStr ''tools/execute'',
                  req_name = JStr ''echo'', req_parameters = JObj [(''x'', JNum 1)]\<rparr>
         \<and> handleJsonRpcRequest srv env now (JNum 7) ''tools/execute'' ''echo'' (JObj [(''x'', JNum 1)])
           = (JObj [(''jsonrpc'', JStr ''2.0''), (''id'', JNum 7), (''result'', JObj [(''x'', JNum 1)])],
              srv')"
proof -
  have p: "parseMcpRequest jsonrpc_request_line
             = Inr \<lparr>isJsonRpc = True, req_id = JNum 7, req_method = JStr ''tools/execute'',
                    req_name = JStr ''echo'', req_parameters = JObj [(''x'', JNum 1)]\<rparr>"
    unfolding jsonrpc_request_line_def by code_simp
  have o: "handler_outcome srv t ''echo'' (JObj [(''x'', JNum 1)]) = Inr (JObj [(''x'', JNum 1)])"
    using assms(2,5) by (auto simp: handler_outcome_def)
  have v: "validate_and_run srv env t ''echo'' (JObj [(''x'', JNum 1)]) True (JNum 7)
             = formatJsonRpcResponse (JNum 7) (JObj [(''x'', JNum 1)])"
    using assms(4) o
    by (simp add: validate_and_run_def run_handler_def is_preformatted_def is_raw_error_def)
  have "executeToolCall srv env now ''echo'' (JObj [(''x'', JNum 1)]) True (JNum 7)
          = (Inr (formatJsonRpcResponse (JNum 7) (JObj [(''x'', JNum 1)])), srv')"
    using executeToolCall_tool [OF assms(1) _ _ assms(3)] v by simp
  then have "handleJsonRpcRequest srv env now (JNum 7) ''tools/execute'' ''echo'' (JObj [(''x'', JNum 1)])
          = (formatJsonRpcResponse (JNum 7) (JObj [(''x'', JNum 1)]), srv')"
    by (simp add: handleJsonRpcRequest_def)
  with p show ?thesis by (simp add: formatJsonRpcResponse_def)
qed

theorem jsonrpc_execute_echo_witness:
  "parseMcpRequest jsonrpc_request_line
     = Inr \<lparr>isJsonRpc = True, req_id = JNum 7, req_method = JStr ''tools/execute'',
            req_name = JStr ''echo'', req_parameters = JObj [(''x'', JNum 1)]\<rparr>
   \<and> handleJsonRpcRequest test_server Map.empty 0 (JNum 7) ''tools/execute'' ''echo'' (JObj [(''x'', JNum 1)])
     = (JObj [(''jsonrpc'', JStr ''2.0''), (''id'', JNum 7), (''result'', JObj [(''x'', JNum 1)])],
        test_server)"
proof -
  have k: "''echo'' \<notin> set Object_prototype_keys" by (simp add: Object_prototype_keys_def)
  have h: "tool_handler echo (JObj [(''x'', JNum 1)]) = Inr (JObj [(''x'', JNum 1)])"
    by (simp add: echo_def)
  have m: "\<not> mockMode (options test_server) \<or> getMockData (options test_server) = None"
    by (simp add: test_server_fields default_options_def)
  show ?thesis
    using jsonrpc_execute_echo
      [where srv = test_server and t = echo and now = 0 and srv' = test_server and env = Map.empty,
       OF findTool_test_server(1) h rate_limit_check_test_server [OF k] validateApiKeys_test_server m]
    by simp
qed


lemma truthy_get_imp_truthy: "truthy (get v k) \<Longrightarrow> truthy v"
  by (cases v) simp_all

text \<open>
  Claim C10, as stated, fails in two ways. In the versioned shape the handler result
  \<open>{type: "article", message: "draft text"}\<close> becomes the JSON-RPC error \<open>-32000\<close> with
  that message, and no kind: the error has no \<open>type\<close>. And an object that also has a
  protocol version and an error is handed back as it is, not re-wrapped.
\<close>

theorem raw_error_rewrap_counterexample:
  "fst (executeToolCall test_server Map.empty 0 ''article'' (JObj []) True (JNum 7))
     = Inr (JObj [(''jsonrpc'', JStr ''2.0''), (''id'', JNum 7),
                  (''error'', JObj [(''code'', JNum (- 32000)), (''message'', JStr ''draft text'')])])
   \<and> truthy (get envelope_value ''type'') \<and> truthy (get envelope_value ''message'')
   \<and> fst (executeToolCall test_server Map.empty 0 ''envelope'' (JObj []) False JNull) = Inr envelope_value
   \<and> envelope_value \<noteq> formatMcpError test_server (get envelope_value ''type'') (get envelope_value ''message'')"
proof -
  have k: "''article'' \<notin> set Object_prototype_keys" "''envelope'' \<notin> set Object_prototype_keys"
    by (simp_all add: Object_prototype_keys_def)
  have a: "validate_and_run test_server Map.empty article ''article'' (JObj []) True (JNum 7)
             = formatJsonRpcError (JNum 7) (- 32000) (JStr ''draft text'')"
    by (simp add: validate_and_run_def validateApiKeys_test_server run_handler_def
          handler_outcome_test_server article_def is_preformatted_def is_raw_error_def)
  have e: "validate_and_run test_server Map.empty envelope ''envelope'' (JObj []) False JNull
             = envelope_value"
    by (simp add: validate_and_run_def validateApiKeys_test_server run_handler_def
          handler_outcome_test_server envelope_def is_preformatted_def envelope_value_def)
  have 1: "fst (executeToolCall test_server Map.empty 0 ''article'' (JObj []) True (JNum 7))
             = Inr (formatJsonRpcError (JNum 7) (- 32000) (JStr ''draft text''))"
    using executeToolCall_tool [OF findTool_test_server(2) _ _ rate_limit_check_test_server [OF k(1)]] a
    by simp
  have 2: "fst (executeToolCall test_server Map.empty 0 ''envelope'' (JObj []) False JNull)
             = Inr envelope_value"
    using executeToolCall_tool [OF findTool_test_server(3) _ _ rate_limit_check_test_server [OF k(2)]] e
    by simp
  show ?thesis
    using 1 2 by (simp add: formatJsonRpcError_def formatMcpError_def envelope_value_def)
qed

text \<open>
  Claim C10, amended. For every registered tool that is reached (the rate limit is not
  exceeded and the credentials are valid) and whose handler returns an object with truthy
  \<open>type\<close> and \<open>message\<close> that does not also have a truthy \<open>protocolVersion\<close> and \<open>error\<close>,
  the dispatch engine does not wrap the result as a success: in the simple shape the
  response is the error envelope of kind \<open>result.type\<close> with message \<open>result.message\<close>,
  in the versioned shape the JSON-RPC error \<open>-32000\<close> with message \<open>result.message\<close>.
\<close>

theorem raw_error_result_is_rewrapped:
  assumes "findTool srv name = Some t"
    and "name \<noteq> ''list_resources''" and "name \<noteq> ''read_resource''"
    and "rate_limit_check srv name now = Inr (False, srv')"
    and "validateApiKeys srv env = None"
    and "handler_outcome srv t name parameters = Inr result"
    and "truthy (get result ''type'')" and "truthy (get result ''message'')"
    and "\<not> is_preformatted result"
  shows "executeToolCall srv env now name parameters isRpc requestId
           = (Inr (if isRpc
                   then formatJsonRpcError requestId (- 32000) (get result ''message'')
                   else formatMcpError srv (get result ''type'') (get result ''message'')),
              srv')"
proof -
  have t: "truthy result" using assms(7) by (rule truthy_get_imp_truthy)
  then have n: "result \<noteq> JUndefined" "result \<noteq> JNull" by auto
  have "validate_and_run srv env t name parameters isRpc requestId
          = (if isRpc
             then formatJsonRpcError requestId (- 32000) (get result ''message'')
             else formatMcpError srv (get result ''type'') (get result ''message''))"
    using assms(5,6,7,8,9) t n
    by (simp add: validate_and_run_def run_handler_def is_raw_error_def)
  then show ?thesis
    using executeToolCall_tool [OF assms(1,2,3,4)] by simp
qed

theorem raw_error_result_is_rewrapped_witness:
  "executeToolCall test_server Map.empty 0 ''article'' (JObj []) False JNull
     = (Inr (JObj [(''protocolVersion'', JStr ''1.0''),
                   (''error'', JObj [(''type'', JStr ''article''), (''message'', JStr ''draft text'')])]),
        test_server)"
proof -
  let ?r = "JObj [(''type'', JStr ''article''), (''message'', JStr ''draft text'')]"
  have k: "''article'' \<notin> set Object_prototype_keys"
    by (simp add: Object_prototype_keys_def)
  have o: "handler_outcome test_server article ''article'' (JObj []) = Inr ?r"
    by (simp add: handler_outcome_test_server article_def)
  have p: "\<not> is_preformatted ?r" by (simp add: is_preformatted_def)
  show ?thesis
    using raw_error_result_is_rewrapped
      [where srv = test_server and name = "''article''" and t = article and now = 0
         and srv' = test_server and env = Map.empty and parameters = "JObj []" and result = ?r
         and isRpc = False and requestId = JNull,
       OF findTool_test_server(2) _ _ rate_limit_check_test_server [OF k] validateApiKeys_test_server o _ _ p]
    by (simp add: formatMcpError_def test_server_fields default_options_def)
qed

















end
